theory Spec2Isabelle
  imports Complex_Main
begin

section \<open>Data model\<close>

text \<open>
  The module \<^verbatim>\<open>gpmf/orientation.py\<close> consumes the records produced by the KLV
  tokenizer of the sibling module \<^verbatim>\<open>parse\<close>. A record value is a numpy
  array; the three shapes that occur are a 0-d value, a 1-d array and a 2-d array (one row
  per sample).
\<close>

datatype 'a ndarray = Arr0 'a | Arr1 "'a list" | Arr2 "'a list list"

text \<open>
  Modelled from the spec: the payload type of a KLV record, which the absent module
  \<^verbatim>\<open>parse\<close> declares. The spec gives it as a typed numeric payload (scalar,
  fixed-size vector, or homogeneous list of fixed-size vectors). The element type is either
  an integer type or a floating-point type; the floating-point type is the parameter
  \<open>'f\<close>.
\<close>

datatype 'f payload = IntArr "int ndarray" | FltArr "'f ndarray"

text \<open>
  Modelled from the spec: the KLV record \<open>{key, value}\<close> of the absent module
  \<^verbatim>\<open>parse\<close>; the field \<^verbatim>\<open>value\<close> is written \<open>val\<close>.
\<close>

record 'f KLVItem =
  key :: string
  val :: "'f payload"

record 'f CoriData =
  cts :: "'f payload"
  z :: "'f list"
  y :: "'f list"
  x :: "'f list"

record 'f IoriData =
  cts :: "'f payload"
  z :: "'f list"
  y :: "'f list"
  x :: "'f list"

text \<open>
  The exceptions the module can raise: \<open>KeyError\<close> from indexing the dictionary (the
  spec's \<^verbatim>\<open>MissingFieldError\<close>), \<open>TypeError\<close> and \<open>ValueError\<close> from
  numpy, scipy and tuple unpacking.
\<close>

datatype error = KeyError string | TypeError | ValueError

section \<open>Stream segmentation\<close>

text \<open>
  The inner loop of \<^verbatim>\<open>extract_blocks\<close> over the records of one container, with the
  two loop variables \<^verbatim>\<open>content\<close> and \<^verbatim>\<open>is_cc\<close> passed along.
\<close>

fun scan_container ::
  "string \<Rightarrow> 'f KLVItem list \<Rightarrow> 'f KLVItem list \<times> bool \<Rightarrow> 'f KLVItem list \<times> bool" where
  "scan_container fourcc [] (content, is_cc) = (content, is_cc)"
| "scan_container fourcc (elt # rest) (content, is_cc) =
     scan_container fourcc rest
       (content @ [elt], if key elt = fourcc then True else is_cc)"

text \<open>
  \<^verbatim>\<open>extract_blocks(stream, fourcc)\<close>. The call
  \<^verbatim>\<open>parse.filter_klv(stream, 'STRM')\<close> belongs to the absent module
  \<^verbatim>\<open>parse\<close>; its result is the parameter \<open>strms\<close>, one list of records (the
  \<^verbatim>\<open>value\<close> of the container) per container. The generator is the list of the
  blocks it yields, in order.
\<close>

fun extract_blocks :: "'f KLVItem list list \<Rightarrow> string \<Rightarrow> 'f KLVItem list list" where
  "extract_blocks [] fourcc = []"
| "extract_blocks (s # ss) fourcc =
     (case scan_container fourcc s ([], False) of
        (content, is_cc) \<Rightarrow>
          if is_cc then content # extract_blocks ss fourcc
          else extract_blocks ss fourcc)"

section \<open>Arithmetic on arrays\<close>

text \<open>
  The floating-point arithmetic of numpy is a parameter: the conversion of an integer
  element, the product, the quotient (total: numpy yields an infinity or a NaN on a zero
  divisor and raises nothing) and the constant \<^verbatim>\<open>1.0\<close>.
\<close>

record 'f float_ops =
  f_of_int :: "int \<Rightarrow> 'f"
  f_mul :: "'f \<Rightarrow> 'f \<Rightarrow> 'f"
  f_div :: "'f \<Rightarrow> 'f \<Rightarrow> 'f"
  f_one :: "'f"

text \<open>\<^verbatim>\<open>a * 1.0\<close>: an integer array is promoted to floating point.\<close>

fun np_times_one :: "'f float_ops \<Rightarrow> 'f payload \<Rightarrow> 'f ndarray" where
  "np_times_one ops (IntArr a) =
     map_ndarray (\<lambda>i. f_mul ops (f_of_int ops i) (f_one ops)) a"
| "np_times_one ops (FltArr a) = map_ndarray (\<lambda>v. f_mul ops v (f_one ops)) a"

text \<open>The divisor of a floating-point array, promoted when it is integer-typed.\<close>

fun as_float :: "'f float_ops \<Rightarrow> 'f payload \<Rightarrow> 'f ndarray" where
  "as_float ops (IntArr a) = map_ndarray (f_of_int ops) a"
| "as_float ops (FltArr a) = a"

fun sequence :: "(error + 'a) list \<Rightarrow> error + 'a list" where
  "sequence [] = Inr []"
| "sequence (r # rs) =
     (case r of
        Inl e \<Rightarrow> Inl e
      | Inr v \<Rightarrow> (case sequence rs of Inl e \<Rightarrow> Inl e | Inr vs \<Rightarrow> Inr (v # vs)))"

text \<open>
  Broadcasting along one axis: equal lengths pair up, a length of one is stretched, any
  other pair of lengths is numpy's \<^verbatim>\<open>ValueError\<close> (operands could not be
  broadcast together).
\<close>

definition broadcast_axis ::
  "('a \<Rightarrow> 'b \<Rightarrow> error + 'c) \<Rightarrow> 'a list \<Rightarrow> 'b list \<Rightarrow> error + 'c list" where
  "broadcast_axis g xs ys =
     (if length xs = length ys then sequence (map (\<lambda>(u, v). g u v) (zip xs ys))
      else if length xs = 1 then sequence (map (g (hd xs)) ys)
      else if length ys = 1 then sequence (map (\<lambda>u. g u (hd ys)) xs)
      else Inl ValueError)"

text \<open>
  An element-wise binary operation on arrays of at most two dimensions. Shapes are
  aligned at the last axis, so a 1-d array acts as a single row against a 2-d array.
\<close>

fun broadcast ::
  "('a \<Rightarrow> 'a \<Rightarrow> 'a) \<Rightarrow> 'a ndarray \<Rightarrow> 'a ndarray \<Rightarrow> error + 'a ndarray" where
  "broadcast f (Arr0 u) (Arr0 v) = Inr (Arr0 (f u v))"
| "broadcast f (Arr0 u) (Arr1 vs) = Inr (Arr1 (map (f u) vs))"
| "broadcast f (Arr0 u) (Arr2 vss) = Inr (Arr2 (map (map (f u)) vss))"
| "broadcast f (Arr1 us) (Arr0 v) = Inr (Arr1 (map (\<lambda>u. f u v) us))"
| "broadcast f (Arr2 uss) (Arr0 v) = Inr (Arr2 (map (map (\<lambda>u. f u v)) uss))"
| "broadcast f (Arr1 us) (Arr1 vs) =
     map_sum id Arr1 (broadcast_axis (\<lambda>u v. Inr (f u v)) us vs)"
| "broadcast f (Arr1 us) (Arr2 vss) =
     map_sum id Arr2 (broadcast_axis (broadcast_axis (\<lambda>u v. Inr (f u v))) [us] vss)"
| "broadcast f (Arr2 uss) (Arr1 vs) =
     map_sum id Arr2 (broadcast_axis (broadcast_axis (\<lambda>u v. Inr (f u v))) uss [vs])"
| "broadcast f (Arr2 uss) (Arr2 vss) =
     map_sum id Arr2 (broadcast_axis (broadcast_axis (\<lambda>u v. Inr (f u v))) uss vss)"

text \<open>\<^verbatim>\<open>a / b\<close> for a floating-point array \<open>a\<close> and a record value \<open>b\<close>.\<close>

definition np_divide :: "'f float_ops \<Rightarrow> 'f ndarray \<Rightarrow> 'f payload \<Rightarrow> error + 'f ndarray" where
  "np_divide ops a b = broadcast (f_div ops) a (as_float ops b)"

section \<open>Orientation decoding\<close>

text \<open>
  The dictionary comprehension \<^verbatim>\<open>{s.key: s for s in block}\<close>: records are stored
  in block order, so a later record replaces an earlier one with the same key.
\<close>

definition block_dict :: "'f KLVItem list \<Rightarrow> (string \<rightharpoonup> 'f KLVItem)" where
  "block_dict block = foldl (\<lambda>m s. m(key s \<mapsto> s)) Map.empty block"

text \<open>
  Iterating a numpy array walks its first axis; a 0-d array cannot be iterated
  (\<^verbatim>\<open>TypeError\<close>).
\<close>

fun iterate :: "'a ndarray \<Rightarrow> error + 'a ndarray list" where
  "iterate (Arr0 v) = Inl TypeError"
| "iterate (Arr1 vs) = Inr (map Arr0 vs)"
| "iterate (Arr2 vss) = Inr (map Arr1 vss)"

text \<open>
  \<^verbatim>\<open>z, y, x = rotation.T\<close> for the array built from a list of angle triples. With no
  triple the array has shape \<open>(0,)\<close> and unpacking three values raises
  \<^verbatim>\<open>ValueError\<close>; otherwise the transpose has the three rows \<open>z\<close>, \<open>y\<close>, \<open>x\<close>.
\<close>

fun unpack_T :: "('f \<times> 'f \<times> 'f) list \<Rightarrow> error + ('f list \<times> 'f list \<times> 'f list)" where
  "unpack_T [] = Inl ValueError"
| "unpack_T (r # rs) =
     Inr (map fst (r # rs), map (\<lambda>t. fst (snd t)) (r # rs), map (\<lambda>t. snd (snd t)) (r # rs))"

text \<open>
  Lines 71 and 72 (101 and 102) of the module. The conversion
  \<^verbatim>\<open>R.from_quat(q).as_euler('zyx', degrees=True)\<close> is scipy's and is the parameter
  \<open>as_euler\<close>: it yields the three angles of one quaternion, or \<open>None\<close> where scipy
  raises \<^verbatim>\<open>ValueError\<close> (an argument that is not four numbers, a quaternion of
  norm zero). The list comprehension stops at the first quaternion that is refused.
\<close>

definition euler_zyx ::
  "('f ndarray \<Rightarrow> ('f \<times> 'f \<times> 'f) option) \<Rightarrow> 'f ndarray
     \<Rightarrow> error + ('f list \<times> 'f list \<times> 'f list)" where
  "euler_zyx as_euler data =
     (case iterate data of
        Inl e \<Rightarrow> Inl e
      | Inr qs \<Rightarrow>
          (case sequence (map (\<lambda>q. case as_euler q of None \<Rightarrow> Inl ValueError
                                                     | Some a \<Rightarrow> Inr a) qs) of
             Inl e \<Rightarrow> Inl e
           | Inr rotation \<Rightarrow> unpack_T rotation))"

definition parse_iori_block ::
  "'f float_ops \<Rightarrow> ('f ndarray \<Rightarrow> ('f \<times> 'f \<times> 'f) option) \<Rightarrow> 'f KLVItem list
     \<Rightarrow> error + 'f IoriData" where
  "parse_iori_block ops as_euler block =
     (case block_dict block ''IORI'' of
        None \<Rightarrow> Inl (KeyError ''IORI'')
      | Some q \<Rightarrow>
          (case block_dict block ''SCAL'' of
             None \<Rightarrow> Inl (KeyError ''SCAL'')
           | Some s \<Rightarrow>
               (case np_divide ops (np_times_one ops (val q)) (val s) of
                  Inl e \<Rightarrow> Inl e
                | Inr data \<Rightarrow>
                    (case euler_zyx as_euler data of
                       Inl e \<Rightarrow> Inl e
                     | Inr (zs, ys, xs) \<Rightarrow>
                         (case block_dict block ''STMP'' of
                            None \<Rightarrow> Inl (KeyError ''STMP'')
                          | Some t \<Rightarrow>
                              Inr \<lparr>IoriData.cts = val t, z = zs, y = ys, x = xs\<rparr>)))))"

definition parse_cori_block ::
  "'f float_ops \<Rightarrow> ('f ndarray \<Rightarrow> ('f \<times> 'f \<times> 'f) option) \<Rightarrow> 'f KLVItem list
     \<Rightarrow> error + 'f CoriData" where
  "parse_cori_block ops as_euler block =
     (case block_dict block ''CORI'' of
        None \<Rightarrow> Inl (KeyError ''CORI'')
      | Some q \<Rightarrow>
          (case block_dict block ''SCAL'' of
             None \<Rightarrow> Inl (KeyError ''SCAL'')
           | Some s \<Rightarrow>
               (case np_divide ops (np_times_one ops (val q)) (val s) of
                  Inl e \<Rightarrow> Inl e
                | Inr data \<Rightarrow>
                    (case euler_zyx as_euler data of
                       Inl e \<Rightarrow> Inl e
                     | Inr (zs, ys, xs) \<Rightarrow>
                         (case block_dict block ''STMP'' of
                            None \<Rightarrow> Inl (KeyError ''STMP'')
                          | Some t \<Rightarrow>
                              Inr \<lparr>CoriData.cts = val t, z = zs, y = ys, x = xs\<rparr>)))))"

section \<open>The decoder with the quaternion key as a parameter\<close>

text \<open>
  The spec asks for a single decode function that takes the quaternion-channel key as
  configuration. \<open>decode\<close> is that function: the body shared by the two decoders, with
  the key as the argument \<open>qkey\<close> and the four fields of the result as a tuple.
\<close>

definition decode ::
  "'f float_ops \<Rightarrow> ('f ndarray \<Rightarrow> ('f \<times> 'f \<times> 'f) option) \<Rightarrow> string \<Rightarrow> 'f KLVItem list
     \<Rightarrow> error + ('f payload \<times> 'f list \<times> 'f list \<times> 'f list)" where
  "decode ops as_euler qkey block =
     (case block_dict block qkey of
        None \<Rightarrow> Inl (KeyError qkey)
      | Some q \<Rightarrow>
          (case block_dict block ''SCAL'' of
             None \<Rightarrow> Inl (KeyError ''SCAL'')
           | Some s \<Rightarrow>
               (case np_divide ops (np_times_one ops (val q)) (val s) of
                  Inl e \<Rightarrow> Inl e
                | Inr data \<Rightarrow>
                    (case euler_zyx as_euler data of
                       Inl e \<Rightarrow> Inl e
                     | Inr (zs, ys, xs) \<Rightarrow>
                         (case block_dict block ''STMP'' of
                            None \<Rightarrow> Inl (KeyError ''STMP'')
                          | Some t \<Rightarrow> Inr (val t, zs, ys, xs))))))"

text \<open>
  The spec's rescale of one component of one sample, \<open>raw \<times> 1.0 / scale\<close>, in the
  floating-point arithmetic \<open>ops\<close>.
\<close>

definition physical :: "'f float_ops \<Rightarrow> 'f \<Rightarrow> 'f \<Rightarrow> 'f" where
  "physical ops r c = f_div ops (f_mul ops r (f_one ops)) c"

text \<open>
  The result of \<open>decode\<close> as the named tuple of either decoder, and the four fields of
  a named tuple.
\<close>

definition iori_of :: "'f payload \<times> 'f list \<times> 'f list \<times> 'f list \<Rightarrow> 'f IoriData" where
  "iori_of = (\<lambda>(c, zs, ys, xs). \<lparr>IoriData.cts = c, z = zs, y = ys, x = xs\<rparr>)"

definition cori_of :: "'f payload \<times> 'f list \<times> 'f list \<times> 'f list \<Rightarrow> 'f CoriData" where
  "cori_of = (\<lambda>(c, zs, ys, xs). \<lparr>CoriData.cts = c, z = zs, y = ys, x = xs\<rparr>)"

definition iori_fields :: "'f IoriData \<Rightarrow> 'f payload \<times> 'f list \<times> 'f list \<times> 'f list" where
  "iori_fields r = (IoriData.cts r, IoriData.z r, IoriData.y r, IoriData.x r)"

definition cori_fields :: "'f CoriData \<Rightarrow> 'f payload \<times> 'f list \<times> 'f list \<times> 'f list" where
  "cori_fields r = (CoriData.cts r, CoriData.z r, CoriData.y r, CoriData.x r)"

text \<open>
  Exchanging the two quaternion keys in a record, in a block (by \<open>map\<close>) and in the
  key an error names.
\<close>

definition swap_fourcc :: "string \<Rightarrow> string" where
  "swap_fourcc k = (if k = ''IORI'' then ''CORI'' else if k = ''CORI'' then ''IORI'' else k)"

definition rekey :: "(string \<Rightarrow> string) \<Rightarrow> 'f KLVItem \<Rightarrow> 'f KLVItem" where
  "rekey \<rho> s = s\<lparr>key := \<rho> (key s)\<rparr>"

fun rekey_error :: "(string \<Rightarrow> string) \<Rightarrow> error \<Rightarrow> error" where
  "rekey_error \<rho> (KeyError k) = KeyError (\<rho> k)"
| "rekey_error \<rho> TypeError = TypeError"
| "rekey_error \<rho> ValueError = ValueError"

text \<open>
  \<^verbatim>\<open>len(a)\<close> of a record value: the size of the first axis; a 0-d value has no
  length (\<^verbatim>\<open>TypeError\<close>).
\<close>

fun np_len :: "'f payload \<Rightarrow> error + nat" where
  "np_len (IntArr (Arr0 v)) = Inl TypeError"
| "np_len (IntArr (Arr1 vs)) = Inr (length vs)"
| "np_len (IntArr (Arr2 vss)) = Inr (length vss)"
| "np_len (FltArr (Arr0 v)) = Inl TypeError"
| "np_len (FltArr (Arr1 vs)) = Inr (length vs)"
| "np_len (FltArr (Arr2 vss)) = Inr (length vss)"

text \<open>
  \<^verbatim>\<open>len(a)\<close> of a floating-point array: the size of its first axis, which is what
  iterating the array walks.
\<close>

fun arr_len :: "'a ndarray \<Rightarrow> error + nat" where
  "arr_len (Arr0 v) = Inl TypeError"
| "arr_len (Arr1 vs) = Inr (length vs)"
| "arr_len (Arr2 vss) = Inr (length vss)"

section \<open>The decoders on a store of arrays\<close>

text \<open>
  numpy arrays are mutable objects, and a record refers to its array. To speak of two
  decodes in sequence, the arrays live in a store: \<open>cells\<close> gives the array at an
  address and \<open>fresh\<close> is the next free address. A new array is put at \<open>fresh\<close>;
  the addresses below it are the arrays that exist.
\<close>

record 'f heap =
  cells :: "nat \<Rightarrow> 'f payload"
  fresh :: nat

definition alloc :: "'f heap \<Rightarrow> 'f payload \<Rightarrow> nat \<times> 'f heap" where
  "alloc h v = (fresh h, \<lparr>cells = (cells h)(fresh h := v), fresh = Suc (fresh h)\<rparr>)"

text \<open>
  A record whose value is the address of its array, and a decoded named tuple whose four
  fields are addresses.
\<close>

record KLVRef =
  ref_key :: string
  ref_val :: nat

record SampleRefs =
  cts_at :: nat
  z_at :: nat
  y_at :: nat
  x_at :: nat

text \<open>
  The dictionary comprehension on such records. The dictionary is a local of the call and
  is not kept in the store.
\<close>

definition block_refs :: "KLVRef list \<Rightarrow> (string \<rightharpoonup> KLVRef)" where
  "block_refs block = foldl (\<lambda>m s. m(ref_key s \<mapsto> s)) Map.empty block"

text \<open>
  \<^verbatim>\<open>parse_iori_block\<close> and \<^verbatim>\<open>parse_cori_block\<close> once more, statement by
  statement, on the store. The product \<^verbatim>\<open>value * 1.0\<close> and the quotient are new
  arrays (the source uses the binary operators, not the in-place ones); \<open>z\<close>, \<open>y\<close>
  and \<open>x\<close>, views of one new array that nothing else refers to, are stored as three new
  arrays; \<open>cts\<close> is the very array of the timestamp record, not a copy. When an
  exception is raised the arrays made so far stay in the store.
\<close>

definition parse_iori_block_heap ::
  "'f float_ops \<Rightarrow> ('f ndarray \<Rightarrow> ('f \<times> 'f \<times> 'f) option) \<Rightarrow> 'f heap \<Rightarrow> KLVRef list
     \<Rightarrow> (error + SampleRefs) \<times> 'f heap" where
  "parse_iori_block_heap ops as_euler h block =
     (case block_refs block ''IORI'' of
        None \<Rightarrow> (Inl (KeyError ''IORI''), h)
      | Some q \<Rightarrow>
          (let promoted = np_times_one ops (cells h (ref_val q));
               (a, h1) = alloc h (FltArr promoted)
           in case block_refs block ''SCAL'' of
                None \<Rightarrow> (Inl (KeyError ''SCAL''), h1)
              | Some s \<Rightarrow>
                  (case np_divide ops promoted (cells h1 (ref_val s)) of
                     Inl e \<Rightarrow> (Inl e, h1)
                   | Inr data \<Rightarrow>
                       (let (b, h2) = alloc h1 (FltArr data)
                        in case euler_zyx as_euler data of
                             Inl e \<Rightarrow> (Inl e, h2)
                           | Inr (zs, ys, xs) \<Rightarrow>
                               (let (az, h3) = alloc h2 (FltArr (Arr1 zs));
                                    (ay, h4) = alloc h3 (FltArr (Arr1 ys));
                                    (ax, h5) = alloc h4 (FltArr (Arr1 xs))
                                in case block_refs block ''STMP'' of
                                     None \<Rightarrow> (Inl (KeyError ''STMP''), h5)
                                   | Some t \<Rightarrow>
                                       (Inr \<lparr>cts_at = ref_val t, z_at = az, y_at = ay,
                                             x_at = ax\<rparr>, h5))))))"

definition parse_cori_block_heap ::
  "'f float_ops \<Rightarrow> ('f ndarray \<Rightarrow> ('f \<times> 'f \<times> 'f) option) \<Rightarrow> 'f heap \<Rightarrow> KLVRef list
     \<Rightarrow> (error + SampleRefs) \<times> 'f heap" where
  "parse_cori_block_heap ops as_euler h block =
     (case block_refs block ''CORI'' of
        None \<Rightarrow> (Inl (KeyError ''CORI''), h)
      | Some q \<Rightarrow>
          (let promoted = np_times_one ops (cells h (ref_val q));
               (a, h1) = alloc h (FltArr promoted)
           in case block_refs block ''SCAL'' of
                None \<Rightarrow> (Inl (KeyError ''SCAL''), h1)
              | Some s \<Rightarrow>
                  (case np_divide ops promoted (cells h1 (ref_val s)) of
                     Inl e \<Rightarrow> (Inl e, h1)
                   | Inr data \<Rightarrow>
                       (let (b, h2) = alloc h1 (FltArr data)
                        in case euler_zyx as_euler data of
                             Inl e \<Rightarrow> (Inl e, h2)
                           | Inr (zs, ys, xs) \<Rightarrow>
                               (let (az, h3) = alloc h2 (FltArr (Arr1 zs));
                                    (ay, h4) = alloc h3 (FltArr (Arr1 ys));
                                    (ax, h5) = alloc h4 (FltArr (Arr1 xs))
                                in case block_refs block ''STMP'' of
                                     None \<Rightarrow> (Inl (KeyError ''STMP''), h5)
                                   | Some t \<Rightarrow>
                                       (Inr \<lparr>cts_at = ref_val t, z_at = az, y_at = ay,
                                             x_at = ax\<rparr>, h5))))))"

text \<open>
  The same body with the quaternion key as a parameter, as \<open>decode\<close> is for the
  decoders on values.
\<close>

definition decode_heap ::
  "'f float_ops \<Rightarrow> ('f ndarray \<Rightarrow> ('f \<times> 'f \<times> 'f) option) \<Rightarrow> string \<Rightarrow> 'f heap \<Rightarrow> KLVRef list
     \<Rightarrow> (error + SampleRefs) \<times> 'f heap" where
  "decode_heap ops as_euler qkey h block =
     (case block_refs block qkey of
        None \<Rightarrow> (Inl (KeyError qkey), h)
      | Some q \<Rightarrow>
          (let promoted = np_times_one ops (cells h (ref_val q));
               (a, h1) = alloc h (FltArr promoted)
           in case block_refs block ''SCAL'' of
                None \<Rightarrow> (Inl (KeyError ''SCAL''), h1)
              | Some s \<Rightarrow>
                  (case np_divide ops promoted (cells h1 (ref_val s)) of
                     Inl e \<Rightarrow> (Inl e, h1)
                   | Inr data \<Rightarrow>
                       (let (b, h2) = alloc h1 (FltArr data)
                        in case euler_zyx as_euler data of
                             Inl e \<Rightarrow> (Inl e, h2)
                           | Inr (zs, ys, xs) \<Rightarrow>
                               (let (az, h3) = alloc h2 (FltArr (Arr1 zs));
                                    (ay, h4) = alloc h3 (FltArr (Arr1 ys));
                                    (ax, h5) = alloc h4 (FltArr (Arr1 xs))
                                in case block_refs block ''STMP'' of
                                     None \<Rightarrow> (Inl (KeyError ''STMP''), h5)
                                   | Some t \<Rightarrow>
                                       (Inr \<lparr>cts_at = ref_val t, z_at = az, y_at = ay,
                                             x_at = ax\<rparr>, h5))))))"

text \<open>
  Reading a block and a result out of the store: the record with its array in place of the
  address, the four arrays of a result, and the four fields of a result on values as arrays.
\<close>

definition load :: "'f heap \<Rightarrow> KLVRef \<Rightarrow> 'f KLVItem" where
  "load h s = \<lparr>key = ref_key s, val = cells h (ref_val s)\<rparr>"

definition contents ::
  "'f heap \<Rightarrow> SampleRefs \<Rightarrow> 'f payload \<times> 'f payload \<times> 'f payload \<times> 'f payload" where
  "contents h r = (cells h (cts_at r), cells h (z_at r), cells h (y_at r), cells h (x_at r))"

definition as_arrays ::
  "'f payload \<times> 'f list \<times> 'f list \<times> 'f list
     \<Rightarrow> 'f payload \<times> 'f payload \<times> 'f payload \<times> 'f payload" where
  "as_arrays = (\<lambda>(c, zs, ys, xs). (c, FltArr (Arr1 zs), FltArr (Arr1 ys), FltArr (Arr1 xs)))"

section \<open>A sample arithmetic and sample blocks\<close>

text \<open>
  The concrete inputs of the examples below use exact rationals extended with the IEEE
  special values for the floating-point type (signed zeros are not told apart), and a
  fragment of scipy's conversion: a positive multiple of the identity quaternion
  \<open>(0, 0, 0, 1)\<close> has the angles \<open>(0, 0, 0)\<close> (scipy normalises its argument);
  every other argument counts as refused, as scipy refuses a quaternion of norm zero or an
  argument that is not four numbers.
\<close>

datatype xfloat = Fin rat | PInf | NInf | NaN

fun x_mul :: "xfloat \<Rightarrow> xfloat \<Rightarrow> xfloat" where
  "x_mul (Fin a) (Fin b) = Fin (a * b)"
| "x_mul NaN v = NaN"
| "x_mul u NaN = NaN"
| "x_mul (Fin a) PInf = (if a = 0 then NaN else if 0 < a then PInf else NInf)"
| "x_mul (Fin a) NInf = (if a = 0 then NaN else if 0 < a then NInf else PInf)"
| "x_mul PInf (Fin b) = (if b = 0 then NaN else if 0 < b then PInf else NInf)"
| "x_mul NInf (Fin b) = (if b = 0 then NaN else if 0 < b then NInf else PInf)"
| "x_mul PInf PInf = PInf"
| "x_mul PInf NInf = NInf"
| "x_mul NInf PInf = NInf"
| "x_mul NInf NInf = PInf"

fun x_div :: "xfloat \<Rightarrow> xfloat \<Rightarrow> xfloat" where
  "x_div (Fin a) (Fin b) =
     (if b = 0 then (if a = 0 then NaN else if 0 < a then PInf else NInf) else Fin (a / b))"
| "x_div NaN v = NaN"
| "x_div u NaN = NaN"
| "x_div (Fin a) PInf = Fin 0"
| "x_div (Fin a) NInf = Fin 0"
| "x_div PInf (Fin b) = (if 0 \<le> b then PInf else NInf)"
| "x_div NInf (Fin b) = (if 0 \<le> b then NInf else PInf)"
| "x_div PInf PInf = NaN"
| "x_div PInf NInf = NaN"
| "x_div NInf PInf = NaN"
| "x_div NInf NInf = NaN"

definition x_ops :: "xfloat float_ops" where
  "x_ops = \<lparr>f_of_int = (\<lambda>i. Fin (of_int i)), f_mul = x_mul, f_div = x_div, f_one = Fin 1\<rparr>"

definition x_euler :: "xfloat ndarray \<Rightarrow> (xfloat \<times> xfloat \<times> xfloat) option" where
  "x_euler q =
     (case q of
        Arr1 [Fin a, Fin b, Fin c, Fin w] \<Rightarrow>
          if a = 0 \<and> b = 0 \<and> c = 0 \<and> 0 < w then Some (Fin 0, Fin 0, Fin 0) else None
      | _ \<Rightarrow> None)"

definition KLV :: "string \<Rightarrow> xfloat payload \<Rightarrow> xfloat KLVItem" where
  "KLV k v = \<lparr>key = k, val = v\<rparr>"

definition gyro_strm :: "xfloat KLVItem list" where
  "gyro_strm =
     [KLV ''STMP'' (IntArr (Arr0 500)), KLV ''SCAL'' (IntArr (Arr0 3755)),
      KLV ''GYRO'' (IntArr (Arr2 [[1, 2, 3], [4, 5, 6]]))]"

definition iori_strm :: "xfloat KLVItem list" where
  "iori_strm =
     [KLV ''STMP'' (IntArr (Arr1 [0, 1, 2])), KLV ''SCAL'' (IntArr (Arr0 2)),
      KLV ''IORI'' (IntArr (Arr2 [[0, 0, 0, 2], [0, 0, 0, 2]]))]"

definition twice_strm :: "xfloat KLVItem list" where
  "twice_strm =
     [KLV ''IORI'' (IntArr (Arr2 [[0, 0, 0, 4], [0, 0, 0, 4]])),
      KLV ''STMP'' (IntArr (Arr1 [0, 1])), KLV ''SCAL'' (IntArr (Arr0 2)),
      KLV ''IORI'' (IntArr (Arr2 [[0, 0, 0, 2], [0, 0, 0, 2]]))]"

definition cori_strm :: "xfloat KLVItem list" where
  "cori_strm =
     [KLV ''STMP'' (IntArr (Arr0 500)), KLV ''SCAL'' (IntArr (Arr0 2)),
      KLV ''CORI'' (IntArr (Arr2 [[0, 0, 0, 2], [0, 0, 0, 2]]))]"

definition zero_quat_strm :: "xfloat KLVItem list" where
  "zero_quat_strm =
     [KLV ''SCAL'' (IntArr (Arr0 1)),
      KLV ''IORI'' (IntArr (Arr2 [[0, 0, 0, 0], [0, 0, 0, 0]]))]"

definition no_stmp_strm :: "xfloat KLVItem list" where
  "no_stmp_strm =
     [KLV ''SCAL'' (IntArr (Arr0 2)),
      KLV ''IORI'' (IntArr (Arr2 [[0, 0, 0, 2], [0, 0, 0, 2]])),
      KLV ''CORI'' (IntArr (Arr2 [[0, 0, 0, 2]]))]"

definition no_scal_strm :: "xfloat KLVItem list" where
  "no_scal_strm =
     [KLV ''STMP'' (IntArr (Arr0 500)),
      KLV ''IORI'' (IntArr (Arr2 [[0, 0, 0, 2], [0, 0, 0, 2]])),
      KLV ''CORI'' (IntArr (Arr2 [[0, 0, 0, 2]]))]"

definition zero_scal_strm :: "xfloat KLVItem list" where
  "zero_scal_strm =
     [KLV ''STMP'' (IntArr (Arr0 500)), KLV ''SCAL'' (IntArr (Arr0 0)),
      KLV ''IORI'' (IntArr (Arr2 [[0, 0, 0, 2], [0, 0, 0, 2]])),
      KLV ''CORI'' (IntArr (Arr2 [[0, 0, 0, 2]]))]"

definition half_strm :: "xfloat KLVItem list" where
  "half_strm =
     [KLV ''STMP'' (IntArr (Arr0 500)), KLV ''SCAL'' (IntArr (Arr0 2)),
      KLV ''IORI'' (IntArr (Arr2 [[0, 0, 0, 1], [0, 0, 0, 3]])),
      KLV ''CORI'' (IntArr (Arr2 [[0, 0, 0, 1]]))]"

text \<open>
  A store with the four arrays of \<open>half_strm\<close> at the addresses 0 to 3, the block
  that refers to them, and two decodes of that block by each decoder, the second in the store
  the first leaves.
\<close>

definition sample_heap :: "xfloat heap" where
  "sample_heap =
     \<lparr>cells = (\<lambda>a. IntArr (Arr0 0))
        (0 := IntArr (Arr0 500), 1 := IntArr (Arr0 2),
         2 := IntArr (Arr2 [[0, 0, 0, 1], [0, 0, 0, 3]]), 3 := IntArr (Arr2 [[0, 0, 0, 1]])),
      fresh = 4\<rparr>"

definition sample_refs :: "KLVRef list" where
  "sample_refs =
     [\<lparr>ref_key = ''STMP'', ref_val = 0\<rparr>, \<lparr>ref_key = ''SCAL'', ref_val = 1\<rparr>,
      \<lparr>ref_key = ''IORI'', ref_val = 2\<rparr>, \<lparr>ref_key = ''CORI'', ref_val = 3\<rparr>]"

definition iori_run1 :: "(error + SampleRefs) \<times> xfloat heap" where
  "iori_run1 = parse_iori_block_heap x_ops x_euler sample_heap sample_refs"

definition iori_run2 :: "(error + SampleRefs) \<times> xfloat heap" where
  "iori_run2 = parse_iori_block_heap x_ops x_euler (snd iori_run1) sample_refs"

definition cori_run1 :: "(error + SampleRefs) \<times> xfloat heap" where
  "cori_run1 = parse_cori_block_heap x_ops x_euler sample_heap sample_refs"

definition cori_run2 :: "(error + SampleRefs) \<times> xfloat heap" where
  "cori_run2 = parse_cori_block_heap x_ops x_euler (snd cori_run1) sample_refs"

section \<open>Properties of the segmentation\<close>

lemma scan_container_eq:
  "scan_container fourcc elts (content, is_cc) =
     (content @ elts, is_cc \<or> fourcc \<in> key ` set elts)"
  by (induction elts arbitrary: content is_cc) auto

lemma extract_blocks_filter:
  "extract_blocks strms fourcc = filter (\<lambda>s. fourcc \<in> key ` set s) strms"
  by (induction strms) (simp_all add: scan_container_eq)

section \<open>Properties of the dictionary and the decoder\<close>

lemma block_dict_snoc: "block_dict (b @ [s]) = (block_dict b)(key s \<mapsto> s)"
  by (simp add: block_dict_def)

lemma block_dict_Nil: "block_dict [] = Map.empty"
  by (simp add: block_dict_def)

lemma block_dict_None: "block_dict b k = None \<longleftrightarrow> k \<notin> key ` set b"
  by (induction b rule: rev_induct) (auto simp: block_dict_snoc block_dict_Nil)

lemma block_dict_last:
  "k \<in> key ` set b \<Longrightarrow> block_dict b k = Some (last (filter (\<lambda>s. key s = k) b))"
proof (induction b rule: rev_induct)
  case Nil
  then show ?case by simp
next
  case (snoc s b)
  show ?case
  proof (cases "key s = k")
    case True
    then show ?thesis by (simp add: block_dict_snoc)
  next
    case False
    with snoc.prems have "k \<in> key ` set b" by auto
    with snoc.IH False show ?thesis by (simp add: block_dict_snoc)
  qed
qed

lemma block_dict_rekey:
  "inj \<rho> \<Longrightarrow> block_dict (map (rekey \<rho>) b) (\<rho> k) = map_option (rekey \<rho>) (block_dict b k)"
  by (induction b rule: rev_induct)
     (auto simp: block_dict_snoc block_dict_Nil rekey_def dest: injD)

lemma parse_iori_block_decode:
  "parse_iori_block ops as_euler block = map_sum id iori_of (decode ops as_euler ''IORI'' block)"
  by (simp add: parse_iori_block_def decode_def iori_of_def split: option.splits sum.splits)

lemma parse_cori_block_decode:
  "parse_cori_block ops as_euler block = map_sum id cori_of (decode ops as_euler ''CORI'' block)"
  by (simp add: parse_cori_block_def decode_def cori_of_def split: option.splits sum.splits)

lemma decode_Inr:
  "decode ops as_euler qkey block = Inr (c, zs, ys, xs) \<longleftrightarrow>
     (\<exists>q s t data. block_dict block qkey = Some q \<and> block_dict block ''SCAL'' = Some s
        \<and> block_dict block ''STMP'' = Some t
        \<and> np_divide ops (np_times_one ops (val q)) (val s) = Inr data
        \<and> euler_zyx as_euler data = Inr (zs, ys, xs) \<and> c = val t)"
  by (auto simp: decode_def split: option.splits sum.splits)

lemma unpack_T_lengths:
  "unpack_T rs = Inr (zs, ys, xs) \<Longrightarrow>
     length zs = length rs \<and> length ys = length rs \<and> length xs = length rs \<and> 0 < length rs"
  by (cases rs) auto

lemma euler_zyx_lengths:
  "euler_zyx as_euler data = Inr (zs, ys, xs) \<Longrightarrow>
     length zs = length ys \<and> length ys = length xs \<and> 0 < length zs"
  by (auto simp: euler_zyx_def split: sum.splits dest!: unpack_T_lengths)

lemma decode_lengths:
  "decode ops as_euler qkey block = Inr (c, zs, ys, xs) \<Longrightarrow>
     length zs = length ys \<and> length ys = length xs \<and> 0 < length zs"
  unfolding decode_Inr using euler_zyx_lengths by blast

lemma decode_cts:
  "decode ops as_euler qkey block = Inr (c, zs, ys, xs) \<Longrightarrow>
     ''STMP'' \<in> key ` set block \<and> c = val (last (filter (\<lambda>s. key s = ''STMP'') block))"
proof -
  assume "decode ops as_euler qkey block = Inr (c, zs, ys, xs)"
  then obtain t where t: "block_dict block ''STMP'' = Some t" "c = val t"
    unfolding decode_Inr by blast
  then have present: "''STMP'' \<in> key ` set block"
    using block_dict_None [of block "''STMP''"] by auto
  with t show ?thesis
    using block_dict_last [OF present] by simp
qed

lemma decode_missing_quaternion:
  "qkey \<notin> key ` set block \<Longrightarrow> decode ops as_euler qkey block = Inl (KeyError qkey)"
  using block_dict_None [of block qkey] by (simp add: decode_def)

lemma decode_missing_scale:
  "qkey \<in> key ` set block \<Longrightarrow> ''SCAL'' \<notin> key ` set block \<Longrightarrow>
     decode ops as_euler qkey block = Inl (KeyError ''SCAL'')"
  using block_dict_None [of block qkey] block_dict_None [of block "''SCAL''"]
  by (auto simp: decode_def split: option.splits)

lemma decode_missing_timestamp:
  "''STMP'' \<notin> key ` set block \<Longrightarrow> \<exists>e. decode ops as_euler qkey block = Inl e"
  using block_dict_None [of block "''STMP''"]
  by (auto simp: decode_def split: option.splits sum.splits)

lemma decode_missing_timestamp_only:
  "''STMP'' \<notin> key ` set block \<Longrightarrow> block_dict block qkey = Some q \<Longrightarrow>
   block_dict block ''SCAL'' = Some s \<Longrightarrow>
   np_divide ops (np_times_one ops (val q)) (val s) = Inr data \<Longrightarrow>
   euler_zyx as_euler data = Inr a \<Longrightarrow>
   decode ops as_euler qkey block = Inl (KeyError ''STMP'')"
  using block_dict_None [of block "''STMP''"]
  by (auto simp: decode_def split: option.splits sum.splits)

lemma np_divide_scalar:
  "as_float ops b = Arr0 c \<Longrightarrow> np_divide ops a b = Inr (map_ndarray (\<lambda>v. f_div ops v c) a)"
  by (cases a) (simp_all add: np_divide_def)

lemma sequence_map_Inl: "sequence (map h vs) = Inl e \<Longrightarrow> \<exists>v\<in>set vs. h v = Inl e"
  by (induction vs) (auto split: sum.splits)

lemma broadcast_axis_Inl:
  assumes "broadcast_axis g us vs = Inl e"
  shows "e = ValueError \<or> (\<exists>u v. g u v = Inl e)"
proof (cases "e = ValueError")
  case False
  consider (pair) "sequence (map (\<lambda>(u, v). g u v) (zip us vs)) = Inl e"
    | (left) "sequence (map (g (hd us)) vs) = Inl e"
    | (right) "sequence (map (\<lambda>u. g u (hd vs)) us) = Inl e"
    using assms False by (auto simp: broadcast_axis_def split: if_splits)
  then show ?thesis
  proof cases
    case pair
    from sequence_map_Inl [OF this] show ?thesis by (auto split: prod.splits)
  next
    case left
    from sequence_map_Inl [OF this] show ?thesis by blast
  next
    case right
    from sequence_map_Inl [OF this] show ?thesis by blast
  qed
qed simp

lemma broadcast_Inl: "broadcast f a b = Inl e \<Longrightarrow> e = ValueError"
proof (induction f a b rule: broadcast.induct)
  case (6 f us vs)
  then show ?case by (auto simp: map_sum_def split: sum.splits dest!: broadcast_axis_Inl)
next
  case (7 f us vss)
  then show ?case by (auto simp: map_sum_def split: sum.splits dest!: broadcast_axis_Inl)
next
  case (8 f uss vs)
  then show ?case by (auto simp: map_sum_def split: sum.splits dest!: broadcast_axis_Inl)
next
  case (9 f uss vss)
  then show ?case by (auto simp: map_sum_def split: sum.splits dest!: broadcast_axis_Inl)
qed simp_all

lemma np_divide_Inl: "np_divide ops a b = Inl e \<Longrightarrow> e = ValueError"
  unfolding np_divide_def by (rule broadcast_Inl)

lemma euler_zyx_Inl: "euler_zyx as_euler data = Inl e \<Longrightarrow> e = TypeError \<or> e = ValueError"
  by (cases data)
     (auto simp: euler_zyx_def split: sum.splits option.splits list.splits
           dest!: sequence_map_Inl elim: unpack_T.elims)

lemma decode_KeyError:
  "decode ops as_euler qkey block = Inl (KeyError k) \<Longrightarrow>
     k \<in> {qkey, ''SCAL'', ''STMP''} \<and> k \<notin> key ` set block"
  using block_dict_None [of block qkey] block_dict_None [of block "''SCAL''"]
    block_dict_None [of block "''STMP''"]
  by (auto simp: decode_def split: option.splits sum.splits
           dest: np_divide_Inl euler_zyx_Inl)

lemma inj_swap_fourcc: "inj swap_fourcc"
  by (rule injI) (auto simp: swap_fourcc_def split: if_splits)

lemma val_rekey: "val (rekey \<rho> s) = val s"
  by (simp add: rekey_def)

lemma decode_rekey:
  assumes "inj \<rho>" "\<rho> ''SCAL'' = ''SCAL''" "\<rho> ''STMP'' = ''STMP''"
  shows "decode ops as_euler (\<rho> qkey) (map (rekey \<rho>) block) =
           map_sum (rekey_error \<rho>) id (decode ops as_euler qkey block)"
proof -
  have look: "block_dict (map (rekey \<rho>) block) (\<rho> k) = map_option (rekey \<rho>) (block_dict block k)"
    for k using assms(1) by (rule block_dict_rekey)
  have scal: "block_dict (map (rekey \<rho>) block) ''SCAL'' = map_option (rekey \<rho>) (block_dict block ''SCAL'')"
    using look [of "''SCAL''"] assms(2) by simp
  have stmp: "block_dict (map (rekey \<rho>) block) ''STMP'' = map_option (rekey \<rho>) (block_dict block ''STMP'')"
    using look [of "''STMP''"] assms(3) by simp
  show ?thesis
    unfolding decode_def look scal stmp
    by (auto simp: val_rekey assms split: option.splits sum.splits
             dest: np_divide_Inl euler_zyx_Inl)
qed

lemma np_times_one_as_float:
  "np_times_one ops p = map_ndarray (\<lambda>v. f_mul ops v (f_one ops)) (as_float ops p)"
  by (cases p) (simp_all add: ndarray.map_comp comp_def)

lemma np_divide_physical:
  "as_float ops p = Arr2 raw \<Longrightarrow> as_float ops b = Arr0 c \<Longrightarrow>
     np_divide ops (np_times_one ops p) b = Inr (Arr2 (map (map (\<lambda>r. physical ops r c)) raw))"
  by (simp add: np_divide_scalar np_times_one_as_float physical_def comp_def)

lemma decode_no_KeyError:
  "block_dict block qkey = Some q \<Longrightarrow> block_dict block ''SCAL'' = Some s \<Longrightarrow>
   block_dict block ''STMP'' = Some t \<Longrightarrow>
   decode ops as_euler qkey block \<noteq> Inl (KeyError k)"
  using decode_KeyError [of ops as_euler qkey block k] block_dict_None [of block k]
  by auto

lemma sequence_length: "sequence rs = Inr vs \<Longrightarrow> length vs = length rs"
  by (induction rs arbitrary: vs) (auto split: sum.splits)

lemma iterate_length: "iterate data = Inr qs \<Longrightarrow> arr_len data = Inr (length qs)"
  by (cases data) auto

lemma euler_zyx_sample_count:
  "euler_zyx as_euler data = Inr (zs, ys, xs) \<Longrightarrow> arr_len data = Inr (length zs)"
  by (auto simp: euler_zyx_def split: sum.splits
           dest!: unpack_T_lengths sequence_length iterate_length)

lemma broadcast_axis_row_count:
  "broadcast_axis g us [v] = Inr rs \<Longrightarrow> length rs = length us"
  by (auto simp: broadcast_axis_def split: if_splits dest!: sequence_length)

lemma broadcast_row_count:
  "broadcast f (Arr2 uss) b = Inr data \<Longrightarrow> \<forall>vss. b \<noteq> Arr2 vss \<Longrightarrow>
     arr_len data = Inr (length uss)"
  by (cases b) (auto simp: map_sum_def split: sum.splits dest!: broadcast_axis_row_count)

lemma np_divide_row_count:
  "np_divide ops (np_times_one ops p) b = Inr data \<Longrightarrow> as_float ops p = Arr2 raw \<Longrightarrow>
   \<forall>scales. as_float ops b \<noteq> Arr2 scales \<Longrightarrow> arr_len data = Inr (length raw)"
  using broadcast_row_count
    [of "f_div ops" "map (map (\<lambda>v. f_mul ops v (f_one ops))) raw" "as_float ops b" data]
  by (simp add: np_divide_def np_times_one_as_float)

lemma decode_sample_count:
  assumes "decode ops as_euler qkey block = Inr (c, zs, ys, xs)"
  shows "\<exists>q s t data.
      block_dict block qkey = Some q \<and> block_dict block ''SCAL'' = Some s
      \<and> block_dict block ''STMP'' = Some t
      \<and> np_divide ops (np_times_one ops (val q)) (val s) = Inr data
      \<and> arr_len data = Inr (length zs)
      \<and> (\<forall>raw. as_float ops (val q) = Arr2 raw
            \<and> (\<forall>scales. as_float ops (val s) \<noteq> Arr2 scales) \<longrightarrow> length zs = length raw)
      \<and> c = val t
      \<and> (np_len c = Inr (length zs) \<longleftrightarrow> np_len (val t) = arr_len data)"
proof -
  from assms obtain q s t data where q: "block_dict block qkey = Some q"
    and s: "block_dict block ''SCAL'' = Some s" and t: "block_dict block ''STMP'' = Some t"
    and d: "np_divide ops (np_times_one ops (val q)) (val s) = Inr data"
    and e: "euler_zyx as_euler data = Inr (zs, ys, xs)" and c: "c = val t"
    unfolding decode_Inr by blast
  from e have n: "arr_len data = Inr (length zs)" by (rule euler_zyx_sample_count)
  have "length zs = length raw"
    if "as_float ops (val q) = Arr2 raw \<and> (\<forall>scales. as_float ops (val s) \<noteq> Arr2 scales)" for raw
    using np_divide_row_count [OF d, of raw] that n by simp
  with q s t d n c show ?thesis by auto
qed

lemma parse_iori_block_heap_decode:
  "parse_iori_block_heap ops as_euler h block = decode_heap ops as_euler ''IORI'' h block"
  by (simp add: parse_iori_block_heap_def decode_heap_def)

lemma parse_cori_block_heap_decode:
  "parse_cori_block_heap ops as_euler h block = decode_heap ops as_euler ''CORI'' h block"
  by (simp add: parse_cori_block_heap_def decode_heap_def)

lemma block_refs_snoc: "block_refs (b @ [s]) = (block_refs b)(ref_key s \<mapsto> s)"
  by (simp add: block_refs_def)

lemma block_refs_Nil: "block_refs [] = Map.empty"
  by (simp add: block_refs_def)

lemma block_refs_mem: "block_refs b k = Some s \<Longrightarrow> s \<in> set b"
  by (induction b rule: rev_induct) (auto simp: block_refs_snoc block_refs_Nil split: if_splits)

lemma block_dict_load:
  "block_dict (map (load h) b) k = map_option (load h) (block_refs b k)"
  by (induction b rule: rev_induct)
     (auto simp: block_refs_snoc block_refs_Nil block_dict_snoc block_dict_Nil load_def)

lemma decode_heap_frame:
  "decode_heap ops as_euler qkey h block = (res, h') \<Longrightarrow>
     fresh h \<le> fresh h' \<and> (\<forall>a<fresh h. cells h' a = cells h a)"
  by (auto simp: decode_heap_def alloc_def Let_def split: option.splits sum.splits prod.splits)

lemma decode_heap_refs:
  "decode_heap ops as_euler qkey h block = (Inr r, h') \<Longrightarrow> \<forall>s\<in>set block. ref_val s < fresh h \<Longrightarrow>
     cts_at r < fresh h' \<and> z_at r < fresh h' \<and> y_at r < fresh h' \<and> x_at r < fresh h'"
  by (auto simp: decode_heap_def alloc_def Let_def
           split: option.splits sum.splits prod.splits dest!: block_refs_mem)

lemma decode_heap_refines:
  assumes "\<forall>s\<in>set block. ref_val s < fresh h"
    and "decode_heap ops as_euler qkey h block = (res, h')"
  shows "map_sum id (contents h') res =
           map_sum id as_arrays (decode ops as_euler qkey (map (load h) block))"
proof -
  have live: "ref_val s < fresh h" if "block_refs block k = Some s" for k s
    using assms(1) block_refs_mem [OF that] by blast
  show ?thesis
    using assms(2) live [of qkey] live [of "''SCAL''"] live [of "''STMP''"]
    by (auto simp: decode_heap_def decode_def block_dict_load alloc_def Let_def load_def
                   contents_def as_arrays_def
             split: option.splits sum.splits prod.splits)
qed

lemma decode_heap_twice:
  assumes live: "\<forall>s\<in>set block. ref_val s < fresh h"
    and first: "decode_heap ops as_euler qkey h block = (r1, h1)"
    and second: "decode_heap ops as_euler qkey h1 block = (r2, h2)"
  shows "map_sum id (contents h2) r2 = map_sum id (contents h1) r1"
    and "map_sum id (contents h2) r1 = map_sum id (contents h1) r1"
    and "\<forall>a<fresh h. cells h1 a = cells h a \<and> cells h2 a = cells h a"
    and "map_sum id (contents h1) r1 =
           map_sum id as_arrays (decode ops as_euler qkey (map (load h) block))"
proof -
  note frame1 = decode_heap_frame [OF first]
  note frame2 = decode_heap_frame [OF second]
  from live frame1 have live1: "\<forall>s\<in>set block. ref_val s < fresh h1"
    by fastforce
  from live frame1 have same: "map (load h1) block = map (load h) block"
    by (simp add: load_def)
  show pure: "map_sum id (contents h1) r1 =
      map_sum id as_arrays (decode ops as_euler qkey (map (load h) block))"
    by (rule decode_heap_refines [OF live first])
  from decode_heap_refines [OF live1 second] same pure
  show "map_sum id (contents h2) r2 = map_sum id (contents h1) r1"
    by simp
  show "map_sum id (contents h2) r1 = map_sum id (contents h1) r1"
  proof (cases r1)
    case (Inr r)
    with decode_heap_refs [OF _ live] first
    have "cts_at r < fresh h1 \<and> z_at r < fresh h1 \<and> y_at r < fresh h1 \<and> x_at r < fresh h1"
      by simp
    with frame2 Inr show ?thesis by (simp add: contents_def)
  qed simp
  from frame1 frame2 show "\<forall>a<fresh h. cells h1 a = cells h a \<and> cells h2 a = cells h a"
    by auto
qed

lemma iori_fields_of: "iori_fields (iori_of t) = t"
  by (cases t) (simp add: iori_fields_def iori_of_def)

lemma cori_fields_of: "cori_fields (cori_of t) = t"
  by (cases t) (simp add: cori_fields_def cori_of_def)

lemmas sample_defs =
  parse_iori_block_def parse_cori_block_def block_dict_def np_divide_def euler_zyx_def
  x_ops_def x_euler_def KLV_def

lemmas heap_defs =
  parse_iori_block_heap_def parse_cori_block_heap_def block_refs_def alloc_def Let_def
  np_divide_def euler_zyx_def x_ops_def x_euler_def sample_heap_def sample_refs_def contents_def

section \<open>Claims\<close>

text \<open>
  Claim C3. A container that holds no record with the requested key contributes no block:
  the blocks of a stream around such a container are those of the containers before it
  followed by those of the containers after it, and the container alone yields nothing.
  Every block that is yielded holds a record with the requested key.
\<close>

theorem extract_blocks_absent_key:
  "(fourcc \<notin> key ` set s \<longrightarrow>
      extract_blocks (before @ s # after) fourcc =
        extract_blocks before fourcc @ extract_blocks after fourcc)
   \<and> (fourcc \<notin> key ` set s \<longrightarrow> extract_blocks [s] fourcc = [])
   \<and> (blk \<in> set (extract_blocks strms fourcc) \<longrightarrow> fourcc \<in> key ` set blk)"
  by (simp add: extract_blocks_filter del: extract_blocks.simps)

theorem extract_blocks_absent_key_witness:
  "''IORI'' \<notin> key ` set gyro_strm
   \<and> extract_blocks ([iori_strm] @ gyro_strm # [twice_strm]) ''IORI'' =
       extract_blocks [iori_strm] ''IORI'' @ extract_blocks [twice_strm] ''IORI''
   \<and> extract_blocks [gyro_strm] ''IORI'' = []
   \<and> iori_strm \<in> set (extract_blocks [gyro_strm, iori_strm] ''IORI'')
   \<and> ''IORI'' \<in> key ` set iori_strm"
proof -
  have absent: "''IORI'' \<notin> key ` set gyro_strm"
    by (simp add: gyro_strm_def KLV_def)
  have emitted: "iori_strm \<in> set (extract_blocks [gyro_strm, iori_strm] ''IORI'')"
    by (simp add: gyro_strm_def iori_strm_def KLV_def)
  from absent emitted show ?thesis
    using extract_blocks_absent_key
      [of "''IORI''" gyro_strm "[iori_strm]" "[twice_strm]" iori_strm "[gyro_strm, iori_strm]"]
    by blast
qed

text \<open>
  Claim C4. A container whose records carry the requested key exactly once contributes
  exactly one block, at its place in the stream, and the block is the container's whole
  record list in its original order.
\<close>

theorem extract_blocks_key_once:
  "count_list (map key s) fourcc = 1 \<Longrightarrow>
     extract_blocks (before @ s # after) fourcc =
       extract_blocks before fourcc @ s # extract_blocks after fourcc
     \<and> extract_blocks [s] fourcc = [s]"
proof -
  assume "count_list (map key s) fourcc = 1"
  then have "fourcc \<in> set (map key s)"
    using count_list_0_iff [of "map key s" fourcc] by simp 
  then have "fourcc \<in> key ` set s" by simp
  then show ?thesis
    by (simp add: extract_blocks_filter del: extract_blocks.simps)
qed

theorem extract_blocks_key_once_witness:
  "count_list (map key iori_strm) ''IORI'' = 1
   \<and> extract_blocks ([gyro_strm] @ iori_strm # [gyro_strm]) ''IORI'' =
       extract_blocks [gyro_strm] ''IORI'' @ iori_strm # extract_blocks [gyro_strm] ''IORI''
   \<and> extract_blocks [iori_strm] ''IORI'' = [iori_strm]"
proof -
  have once: "count_list (map key iori_strm) ''IORI'' = 1"
    by (simp add: iori_strm_def KLV_def)
  show ?thesis
    using once extract_blocks_key_once [OF once, of "[gyro_strm]" "[gyro_strm]"] by blast
qed

text \<open>
  Claim C5. A container whose records carry the requested key more than once still
  contributes exactly one block, holding all records of the container in order.
\<close>

theorem extract_blocks_key_repeated:
  "1 < count_list (map key s) fourcc \<Longrightarrow>
     extract_blocks (before @ s # after) fourcc =
       extract_blocks before fourcc @ s # extract_blocks after fourcc
     \<and> extract_blocks [s] fourcc = [s]"
proof -
  assume "1 < count_list (map key s) fourcc"
  then have "count_list (map key s) fourcc \<noteq> 0" by simp
  then have "fourcc \<in> key ` set s"
    using count_list_0_iff [of "map key s" fourcc] by simp
  then show ?thesis
    by (simp add: extract_blocks_filter del: extract_blocks.simps)
qed

theorem extract_blocks_key_repeated_witness:
  "1 < count_list (map key twice_strm) ''IORI''
   \<and> extract_blocks ([iori_strm] @ twice_strm # [gyro_strm]) ''IORI'' =
       extract_blocks [iori_strm] ''IORI'' @ twice_strm # extract_blocks [gyro_strm] ''IORI''
   \<and> extract_blocks [twice_strm] ''IORI'' = [twice_strm]"
proof -
  have repeated: "1 < count_list (map key twice_strm) ''IORI''"
    by (simp add: twice_strm_def KLV_def)
  show ?thesis
    using repeated extract_blocks_key_repeated [OF repeated, of "[iori_strm]" "[gyro_strm]"]
    by blast
qed

text \<open>
  Claim C1 fails as stated. The block \<open>iori_strm\<close> holds three timestamps and two
  quaternion samples; it decodes, and the result has three timestamps against two angles
  per axis.
\<close>

theorem decoded_lengths_counterexample:
  "parse_iori_block x_ops x_euler iori_strm =
     Inr \<lparr>IoriData.cts = IntArr (Arr1 [0, 1, 2]), z = [Fin 0, Fin 0], y = [Fin 0, Fin 0],
          x = [Fin 0, Fin 0]\<rparr>
   \<and> np_len (IntArr (Arr1 [0, 1, 2]) :: xfloat payload) = Inr 3
   \<and> length [Fin 0, Fin 0] = 2"
  by (simp add: sample_defs iori_strm_def)

text \<open>
  Claim C1, amended. Every successful decode yields three angle sequences of one common,
  positive length, and that length is the number of rows of the rescaled quaternion array:
  the number of samples of the quaternion record, whenever that record is 2-d and the scale
  record is not. The timestamps are the value of the timestamp record. So the four lengths
  agree exactly when the timestamp record has as many values as there are rows, which no
  decoder checks.
\<close>

theorem decoded_angle_lengths:
  "(parse_iori_block ops as_euler block = Inr r \<longrightarrow>
      length (IoriData.z r) = length (IoriData.y r)
      \<and> length (IoriData.y r) = length (IoriData.x r) \<and> 0 < length (IoriData.z r)
      \<and> (\<exists>q s t data.
            block_dict block ''IORI'' = Some q \<and> block_dict block ''SCAL'' = Some s
            \<and> block_dict block ''STMP'' = Some t
            \<and> np_divide ops (np_times_one ops (val q)) (val s) = Inr data
            \<and> arr_len data = Inr (length (IoriData.z r))
            \<and> (\<forall>raw. as_float ops (val q) = Arr2 raw
                  \<and> (\<forall>scales. as_float ops (val s) \<noteq> Arr2 scales) \<longrightarrow>
                  length (IoriData.z r) = length raw)
            \<and> IoriData.cts r = val t
            \<and> (np_len (IoriData.cts r) = Inr (length (IoriData.z r)) \<longleftrightarrow>
                 np_len (val t) = arr_len data)))
   \<and> (parse_cori_block ops as_euler block' = Inr r' \<longrightarrow>
      length (CoriData.z r') = length (CoriData.y r')
      \<and> length (CoriData.y r') = length (CoriData.x r') \<and> 0 < length (CoriData.z r')
      \<and> (\<exists>q s t data.
            block_dict block' ''CORI'' = Some q \<and> block_dict block' ''SCAL'' = Some s
            \<and> block_dict block' ''STMP'' = Some t
            \<and> np_divide ops (np_times_one ops (val q)) (val s) = Inr data
            \<and> arr_len data = Inr (length (CoriData.z r'))
            \<and> (\<forall>raw. as_float ops (val q) = Arr2 raw
                  \<and> (\<forall>scales. as_float ops (val s) \<noteq> Arr2 scales) \<longrightarrow>
                  length (CoriData.z r') = length raw)
            \<and> CoriData.cts r' = val t
            \<and> (np_len (CoriData.cts r') = Inr (length (CoriData.z r')) \<longleftrightarrow>
                 np_len (val t) = arr_len data)))"
proof (intro conjI impI)
  assume "parse_iori_block ops as_euler block = Inr r"
  then obtain c zs ys xs where d: "decode ops as_euler ''IORI'' block = Inr (c, zs, ys, xs)"
    and r: "r = iori_of (c, zs, ys, xs)"
    unfolding parse_iori_block_decode by (cases "decode ops as_euler ''IORI'' block") auto
  from r have fields: "IoriData.cts r = c" "IoriData.z r = zs" "IoriData.y r = ys"
    "IoriData.x r = xs"
    by (simp_all add: iori_of_def)
  from decode_lengths [OF d]
  show "length (IoriData.z r) = length (IoriData.y r)"
    and "length (IoriData.y r) = length (IoriData.x r)" and "0 < length (IoriData.z r)"
    unfolding fields by auto
  from decode_sample_count [OF d]
  show "\<exists>q s t data.
      block_dict block ''IORI'' = Some q \<and> block_dict block ''SCAL'' = Some s
      \<and> block_dict block ''STMP'' = Some t
      \<and> np_divide ops (np_times_one ops (val q)) (val s) = Inr data
      \<and> arr_len data = Inr (length (IoriData.z r))
      \<and> (\<forall>raw. as_float ops (val q) = Arr2 raw
            \<and> (\<forall>scales. as_float ops (val s) \<noteq> Arr2 scales) \<longrightarrow>
            length (IoriData.z r) = length raw)
      \<and> IoriData.cts r = val t
      \<and> (np_len (IoriData.cts r) = Inr (length (IoriData.z r)) \<longleftrightarrow>
           np_len (val t) = arr_len data)"
    unfolding fields .
next
  assume "parse_cori_block ops as_euler block' = Inr r'"
  then obtain c zs ys xs where d: "decode ops as_euler ''CORI'' block' = Inr (c, zs, ys, xs)"
    and r: "r' = cori_of (c, zs, ys, xs)"
    unfolding parse_cori_block_decode by (cases "decode ops as_euler ''CORI'' block'") auto
  from r have fields: "CoriData.cts r' = c" "CoriData.z r' = zs" "CoriData.y r' = ys"
    "CoriData.x r' = xs"
    by (simp_all add: cori_of_def)
  from decode_lengths [OF d]
  show "length (CoriData.z r') = length (CoriData.y r')"
    and "length (CoriData.y r') = length (CoriData.x r')" and "0 < length (CoriData.z r')"
    unfolding fields by auto
  from decode_sample_count [OF d]
  show "\<exists>q s t data.
      block_dict block' ''CORI'' = Some q \<and> block_dict block' ''SCAL'' = Some s
      \<and> block_dict block' ''STMP'' = Some t
      \<and> np_divide ops (np_times_one ops (val q)) (val s) = Inr data
      \<and> arr_len data = Inr (length (CoriData.z r'))
      \<and> (\<forall>raw. as_float ops (val q) = Arr2 raw
            \<and> (\<forall>scales. as_float ops (val s) \<noteq> Arr2 scales) \<longrightarrow>
            length (CoriData.z r') = length raw)
      \<and> CoriData.cts r' = val t
      \<and> (np_len (CoriData.cts r') = Inr (length (CoriData.z r')) \<longleftrightarrow>
           np_len (val t) = arr_len data)"
    unfolding fields .
qed

theorem decoded_angle_lengths_witness:
  "parse_iori_block x_ops x_euler twice_strm =
     Inr \<lparr>IoriData.cts = IntArr (Arr1 [0, 1]), z = [Fin 0, Fin 0], y = [Fin 0, Fin 0],
          x = [Fin 0, Fin 0]\<rparr>
   \<and> parse_cori_block x_ops x_euler cori_strm =
     Inr \<lparr>CoriData.cts = IntArr (Arr0 500), z = [Fin 0, Fin 0], y = [Fin 0, Fin 0],
          x = [Fin 0, Fin 0]\<rparr>
   \<and> block_dict twice_strm ''IORI'' =
       Some (KLV ''IORI'' (IntArr (Arr2 [[0, 0, 0, 2], [0, 0, 0, 2]])))
   \<and> block_dict cori_strm ''CORI'' =
       Some (KLV ''CORI'' (IntArr (Arr2 [[0, 0, 0, 2], [0, 0, 0, 2]])))
   \<and> block_dict twice_strm ''SCAL'' = Some (KLV ''SCAL'' (IntArr (Arr0 2)))
   \<and> block_dict cori_strm ''SCAL'' = Some (KLV ''SCAL'' (IntArr (Arr0 2)))
   \<and> as_float x_ops (val (KLV ''IORI'' (IntArr (Arr2 [[0, 0, 0, 2], [0, 0, 0, 2]])))) =
       Arr2 [[Fin 0, Fin 0, Fin 0, Fin 2], [Fin 0, Fin 0, Fin 0, Fin 2]]
   \<and> (\<forall>scales. as_float x_ops (val (KLV ''SCAL'' (IntArr (Arr0 2)))) \<noteq> Arr2 scales)
   \<and> length [Fin 0, Fin 0 :: xfloat] =
       length [[Fin 0, Fin 0, Fin 0, Fin 2], [Fin 0, Fin 0, Fin 0, Fin 2 :: xfloat]]
   \<and> np_len (IntArr (Arr1 [0, 1]) :: xfloat payload) = Inr (length [Fin 0, Fin 0 :: xfloat])"
proof -
  let ?ri = "\<lparr>IoriData.cts = IntArr (Arr1 [0, 1]), z = [Fin 0, Fin 0], y = [Fin 0, Fin 0],
          x = [Fin 0, Fin 0 :: xfloat]\<rparr>"
  let ?rc = "\<lparr>CoriData.cts = IntArr (Arr0 500), z = [Fin 0, Fin 0], y = [Fin 0, Fin 0],
          x = [Fin 0, Fin 0 :: xfloat]\<rparr>"
  let ?raw = "[[Fin 0, Fin 0, Fin 0, Fin 2], [Fin 0, Fin 0, Fin 0, Fin 2 :: xfloat]]"
  have iori: "parse_iori_block x_ops x_euler twice_strm = Inr ?ri"
    by (simp add: sample_defs twice_strm_def)
  have cori: "parse_cori_block x_ops x_euler cori_strm = Inr ?rc"
    by (simp add: sample_defs cori_strm_def)
  have lookups: "block_dict twice_strm ''IORI'' =
       Some (KLV ''IORI'' (IntArr (Arr2 [[0, 0, 0, 2], [0, 0, 0, 2]])))"
    "block_dict cori_strm ''CORI'' =
       Some (KLV ''CORI'' (IntArr (Arr2 [[0, 0, 0, 2], [0, 0, 0, 2]])))"
    "block_dict twice_strm ''SCAL'' = Some (KLV ''SCAL'' (IntArr (Arr0 2)))"
    "block_dict cori_strm ''SCAL'' = Some (KLV ''SCAL'' (IntArr (Arr0 2)))"
    "block_dict twice_strm ''STMP'' = Some (KLV ''STMP'' (IntArr (Arr1 [0, 1])))"
    by (simp_all add: block_dict_def twice_strm_def cori_strm_def KLV_def)
  have shapes: "as_float x_ops (val (KLV ''IORI'' (IntArr (Arr2 [[0, 0, 0, 2], [0, 0, 0, 2]])))) = Arr2 ?raw"
    "\<forall>scales. as_float x_ops (val (KLV ''SCAL'' (IntArr (Arr0 2)))) \<noteq> Arr2 scales"
    by (simp_all add: x_ops_def KLV_def)
  note inst = decoded_angle_lengths [of x_ops x_euler twice_strm ?ri cori_strm ?rc]
  from inst iori obtain q s t data where found: "block_dict twice_strm ''IORI'' = Some q"
      "block_dict twice_strm ''SCAL'' = Some s" "block_dict twice_strm ''STMP'' = Some t"
    and count: "\<forall>raw. as_float x_ops (val q) = Arr2 raw
        \<and> (\<forall>scales. as_float x_ops (val s) \<noteq> Arr2 scales) \<longrightarrow>
        length (IoriData.z ?ri) = length raw"
    and stamps: "IoriData.cts ?ri = val t"
    by blast
  from found lookups have "q = KLV ''IORI'' (IntArr (Arr2 [[0, 0, 0, 2], [0, 0, 0, 2]]))"
    and "s = KLV ''SCAL'' (IntArr (Arr0 2))"
    by simp_all
  with count shapes have "length (IoriData.z ?ri) = length ?raw"
    by blast
  with iori cori lookups shapes show ?thesis
    by simp
qed

text \<open>
  Claim C8. In every successful decode the field \<open>cts\<close> is the value of the
  timestamp record of the block (the last one, should the key repeat), unchanged.
\<close>

theorem timestamps_unchanged:
  "(parse_iori_block ops as_euler block = Inr r \<longrightarrow>
      ''STMP'' \<in> key ` set block
      \<and> IoriData.cts r = val (last (filter (\<lambda>s. key s = ''STMP'') block)))
   \<and> (parse_cori_block ops as_euler block' = Inr r' \<longrightarrow>
      ''STMP'' \<in> key ` set block'
      \<and> CoriData.cts r' = val (last (filter (\<lambda>s. key s = ''STMP'') block')))"
proof (intro conjI impI)
  assume "parse_iori_block ops as_euler block = Inr r"
  then obtain c zs ys xs where d: "decode ops as_euler ''IORI'' block = Inr (c, zs, ys, xs)"
    and r: "r = iori_of (c, zs, ys, xs)"
    unfolding parse_iori_block_decode by (cases "decode ops as_euler ''IORI'' block") auto
  from decode_cts [OF d] r
  show "''STMP'' \<in> key ` set block"
    and "IoriData.cts r = val (last (filter (\<lambda>s. key s = ''STMP'') block))"
    by (auto simp: iori_of_def)
next
  assume "parse_cori_block ops as_euler block' = Inr r'"
  then obtain c zs ys xs where d: "decode ops as_euler ''CORI'' block' = Inr (c, zs, ys, xs)"
    and r: "r' = cori_of (c, zs, ys, xs)"
    unfolding parse_cori_block_decode by (cases "decode ops as_euler ''CORI'' block'") auto
  from decode_cts [OF d] r
  show "''STMP'' \<in> key ` set block'"
    and "CoriData.cts r' = val (last (filter (\<lambda>s. key s = ''STMP'') block'))"
    by (auto simp: cori_of_def)
qed

theorem timestamps_unchanged_witness:
  "parse_iori_block x_ops x_euler iori_strm =
     Inr \<lparr>IoriData.cts = IntArr (Arr1 [0, 1, 2]), z = [Fin 0, Fin 0], y = [Fin 0, Fin 0],
          x = [Fin 0, Fin 0]\<rparr>
   \<and> parse_cori_block x_ops x_euler cori_strm =
     Inr \<lparr>CoriData.cts = IntArr (Arr0 500), z = [Fin 0, Fin 0], y = [Fin 0, Fin 0],
          x = [Fin 0, Fin 0]\<rparr>
   \<and> val (last (filter (\<lambda>s. key s = ''STMP'') iori_strm)) = IntArr (Arr1 [0, 1, 2])
   \<and> val (last (filter (\<lambda>s. key s = ''STMP'') cori_strm)) = IntArr (Arr0 500)"
proof -
  have iori: "parse_iori_block x_ops x_euler iori_strm =
     Inr \<lparr>IoriData.cts = IntArr (Arr1 [0, 1, 2]), z = [Fin 0, Fin 0], y = [Fin 0, Fin 0],
          x = [Fin 0, Fin 0]\<rparr>"
    by (simp add: sample_defs iori_strm_def)
  have cori: "parse_cori_block x_ops x_euler cori_strm =
     Inr \<lparr>CoriData.cts = IntArr (Arr0 500), z = [Fin 0, Fin 0], y = [Fin 0, Fin 0],
          x = [Fin 0, Fin 0]\<rparr>"
    by (simp add: sample_defs cori_strm_def)
  from iori cori show ?thesis
    using timestamps_unchanged [of x_ops x_euler iori_strm
        "\<lparr>IoriData.cts = IntArr (Arr1 [0, 1, 2]), z = [Fin 0, Fin 0], y = [Fin 0, Fin 0],
          x = [Fin 0, Fin 0]\<rparr>" cori_strm
        "\<lparr>CoriData.cts = IntArr (Arr0 500), z = [Fin 0, Fin 0], y = [Fin 0, Fin 0],
          x = [Fin 0, Fin 0]\<rparr>"]
    by simp
qed

text \<open>
  Claim C2 fails as stated. The block \<open>zero_quat_strm\<close> has no timestamp record and
  two quaternion samples of norm zero: the conversion to angles refuses them before the
  timestamp record is looked up, so the decoder fails with \<open>ValueError\<close>, not with
  the \<open>KeyError\<close> of a missing field.
\<close>

theorem missing_timestamp_counterexample:
  "''STMP'' \<notin> key ` set zero_quat_strm
   \<and> parse_iori_block x_ops x_euler zero_quat_strm = Inl ValueError"
  by (simp add: sample_defs zero_quat_strm_def)

text \<open>
  Claim C2, amended. A block without the quaternion record fails with the
  \<open>KeyError\<close> of that key; a block with it and without the scale record fails with
  \<open>KeyError\<close> of \<open>SCAL\<close>. A block without the timestamp record always fails and
  returns no result; the failure is the \<open>KeyError\<close> of \<open>STMP\<close> whenever the
  rescale and the conversion to angles go through.
\<close>

theorem missing_record_fails:
  "(''IORI'' \<notin> key ` set block \<longrightarrow>
      parse_iori_block ops as_euler block = Inl (KeyError ''IORI''))
   \<and> (''IORI'' \<in> key ` set block \<and> ''SCAL'' \<notin> key ` set block \<longrightarrow>
      parse_iori_block ops as_euler block = Inl (KeyError ''SCAL''))
   \<and> (''STMP'' \<notin> key ` set block \<longrightarrow>
      (\<exists>err. parse_iori_block ops as_euler block = Inl err))
   \<and> (''STMP'' \<notin> key ` set block \<and> block_dict block ''IORI'' = Some q
        \<and> block_dict block ''SCAL'' = Some s
        \<and> np_divide ops (np_times_one ops (val q)) (val s) = Inr data
        \<and> euler_zyx as_euler data = Inr angles \<longrightarrow>
      parse_iori_block ops as_euler block = Inl (KeyError ''STMP''))
   \<and> (''CORI'' \<notin> key ` set block \<longrightarrow>
      parse_cori_block ops as_euler block = Inl (KeyError ''CORI''))
   \<and> (''CORI'' \<in> key ` set block \<and> ''SCAL'' \<notin> key ` set block \<longrightarrow>
      parse_cori_block ops as_euler block = Inl (KeyError ''SCAL''))
   \<and> (''STMP'' \<notin> key ` set block \<longrightarrow>
      (\<exists>err. parse_cori_block ops as_euler block = Inl err))
   \<and> (''STMP'' \<notin> key ` set block \<and> block_dict block ''CORI'' = Some q'
        \<and> block_dict block ''SCAL'' = Some s
        \<and> np_divide ops (np_times_one ops (val q')) (val s) = Inr data'
        \<and> euler_zyx as_euler data' = Inr angles' \<longrightarrow>
      parse_cori_block ops as_euler block = Inl (KeyError ''STMP''))"
proof -
  have quat: "qkey \<notin> key ` set block \<Longrightarrow>
      decode ops as_euler qkey block = Inl (KeyError qkey)" for qkey
    by (rule decode_missing_quaternion)
  have scal: "qkey \<in> key ` set block \<and> ''SCAL'' \<notin> key ` set block \<Longrightarrow>
      decode ops as_euler qkey block = Inl (KeyError ''SCAL'')" for qkey
    by (simp add: decode_missing_scale)
  have stmp: "''STMP'' \<notin> key ` set block \<Longrightarrow>
      \<exists>err. decode ops as_euler qkey block = Inl err" for qkey
    by (rule decode_missing_timestamp)
  have only: "''STMP'' \<notin> key ` set block \<and> block_dict block qkey = Some u
        \<and> block_dict block ''SCAL'' = Some s
        \<and> np_divide ops (np_times_one ops (val u)) (val s) = Inr d
        \<and> euler_zyx as_euler d = Inr a \<Longrightarrow>
      decode ops as_euler qkey block = Inl (KeyError ''STMP'')" for qkey u d a
    using decode_missing_timestamp_only [of block qkey u s ops d as_euler a] by blast
  show ?thesis
    unfolding parse_iori_block_decode parse_cori_block_decode
    using quat [of "''IORI''"] quat [of "''CORI''"] scal [of "''IORI''"] scal [of "''CORI''"]
      stmp [of "''IORI''"] stmp [of "''CORI''"]
      only [of "''IORI''" q data angles] only [of "''CORI''" q' data' angles']
    by (intro conjI impI) auto
qed

theorem missing_record_fails_witness:
  "''IORI'' \<notin> key ` set gyro_strm
   \<and> parse_iori_block x_ops x_euler gyro_strm = Inl (KeyError ''IORI'')
   \<and> ''CORI'' \<notin> key ` set gyro_strm
   \<and> parse_cori_block x_ops x_euler gyro_strm = Inl (KeyError ''CORI'')
   \<and> ''IORI'' \<in> key ` set no_scal_strm \<and> ''CORI'' \<in> key ` set no_scal_strm
   \<and> ''SCAL'' \<notin> key ` set no_scal_strm
   \<and> parse_iori_block x_ops x_euler no_scal_strm = Inl (KeyError ''SCAL'')
   \<and> parse_cori_block x_ops x_euler no_scal_strm = Inl (KeyError ''SCAL'')
   \<and> ''STMP'' \<notin> key ` set zero_quat_strm
   \<and> (\<exists>err. parse_iori_block x_ops x_euler zero_quat_strm = Inl err)
   \<and> (\<exists>err. parse_cori_block x_ops x_euler zero_quat_strm = Inl err)
   \<and> ''STMP'' \<notin> key ` set no_stmp_strm
   \<and> euler_zyx x_euler (Arr2 [[Fin 0, Fin 0, Fin 0, Fin 1], [Fin 0, Fin 0, Fin 0, Fin 1]]) =
       Inr ([Fin 0, Fin 0], [Fin 0, Fin 0], [Fin 0, Fin 0])
   \<and> euler_zyx x_euler (Arr2 [[Fin 0, Fin 0, Fin 0, Fin 1]]) = Inr ([Fin 0], [Fin 0], [Fin 0])
   \<and> parse_iori_block x_ops x_euler no_stmp_strm = Inl (KeyError ''STMP'')
   \<and> parse_cori_block x_ops x_euler no_stmp_strm = Inl (KeyError ''STMP'')"
proof -
  have gyro: "''IORI'' \<notin> key ` set gyro_strm" "''CORI'' \<notin> key ` set gyro_strm"
    by (simp_all add: gyro_strm_def KLV_def)
  have no_scal: "''IORI'' \<in> key ` set no_scal_strm" "''CORI'' \<in> key ` set no_scal_strm"
    "''SCAL'' \<notin> key ` set no_scal_strm"
    by (simp_all add: no_scal_strm_def KLV_def)
  have zero_quat: "''STMP'' \<notin> key ` set zero_quat_strm"
    by (simp add: zero_quat_strm_def KLV_def)
  have no_stmp: "''STMP'' \<notin> key ` set no_stmp_strm"
    by (simp add: no_stmp_strm_def KLV_def)
  have iori: "block_dict no_stmp_strm ''IORI'' =
      Some (KLV ''IORI'' (IntArr (Arr2 [[0, 0, 0, 2], [0, 0, 0, 2]])))"
    and cori: "block_dict no_stmp_strm ''CORI'' = Some (KLV ''CORI'' (IntArr (Arr2 [[0, 0, 0, 2]])))"
    and scal: "block_dict no_stmp_strm ''SCAL'' = Some (KLV ''SCAL'' (IntArr (Arr0 2)))"
    by (simp_all add: block_dict_def no_stmp_strm_def KLV_def)
  have data: "np_divide x_ops
        (np_times_one x_ops (val (KLV ''IORI'' (IntArr (Arr2 [[0, 0, 0, 2], [0, 0, 0, 2]])))))
        (val (KLV ''SCAL'' (IntArr (Arr0 2)))) =
      Inr (Arr2 [[Fin 0, Fin 0, Fin 0, Fin 1], [Fin 0, Fin 0, Fin 0, Fin 1]])"
    and data': "np_divide x_ops
        (np_times_one x_ops (val (KLV ''CORI'' (IntArr (Arr2 [[0, 0, 0, 2]])))))
        (val (KLV ''SCAL'' (IntArr (Arr0 2)))) =
      Inr (Arr2 [[Fin 0, Fin 0, Fin 0, Fin 1]])"
    by (simp_all add: np_divide_def x_ops_def KLV_def)
  have angles: "euler_zyx x_euler
        (Arr2 [[Fin 0, Fin 0, Fin 0, Fin 1], [Fin 0, Fin 0, Fin 0, Fin 1]]) =
      Inr ([Fin 0, Fin 0], [Fin 0, Fin 0], [Fin 0, Fin 0])"
    and angles': "euler_zyx x_euler (Arr2 [[Fin 0, Fin 0, Fin 0, Fin 1]]) =
      Inr ([Fin 0], [Fin 0], [Fin 0])"
    by (simp_all add: euler_zyx_def x_euler_def)
  note absent = missing_record_fails [of gyro_strm x_ops x_euler]
  note unscaled = missing_record_fails [of no_scal_strm x_ops x_euler]
  note failed = missing_record_fails [of zero_quat_strm x_ops x_euler]
  note untimed = missing_record_fails [of no_stmp_strm x_ops x_euler
      "KLV ''IORI'' (IntArr (Arr2 [[0, 0, 0, 2], [0, 0, 0, 2]]))"
      "KLV ''SCAL'' (IntArr (Arr0 2))"
      "Arr2 [[Fin 0, Fin 0, Fin 0, Fin 1], [Fin 0, Fin 0, Fin 0, Fin 1]]"
      "([Fin 0, Fin 0], [Fin 0, Fin 0], [Fin 0, Fin 0])"
      "KLV ''CORI'' (IntArr (Arr2 [[0, 0, 0, 2]]))"
      "Arr2 [[Fin 0, Fin 0, Fin 0, Fin 1]]"
      "([Fin 0], [Fin 0], [Fin 0])"]
  from absent gyro have 1: "parse_iori_block x_ops x_euler gyro_strm = Inl (KeyError ''IORI'')"
    "parse_cori_block x_ops x_euler gyro_strm = Inl (KeyError ''CORI'')"
    by blast+
  from unscaled no_scal
  have 2: "parse_iori_block x_ops x_euler no_scal_strm = Inl (KeyError ''SCAL'')"
    "parse_cori_block x_ops x_euler no_scal_strm = Inl (KeyError ''SCAL'')"
    by blast+
  from failed zero_quat
  have 3: "\<exists>err. parse_iori_block x_ops x_euler zero_quat_strm = Inl err"
    "\<exists>err. parse_cori_block x_ops x_euler zero_quat_strm = Inl err"
    by blast+
  from untimed no_stmp iori cori scal data data' angles angles'
  have 4: "parse_iori_block x_ops x_euler no_stmp_strm = Inl (KeyError ''STMP'')"
    "parse_cori_block x_ops x_euler no_stmp_strm = Inl (KeyError ''STMP'')"
    by blast+
  from gyro no_scal zero_quat no_stmp angles angles' 1 2 3 4 show ?thesis
    by blast
qed

text \<open>
  Claim C6. With a scalar scale record, the samples handed to the conversion are
  \<open>raw \<times> 1.0 / scale\<close> for every component of every sample, computed with the
  floating-point product and quotient. Integer-typed samples and an integer-typed scale
  enter through the conversion \<open>f_of_int\<close>: nothing is divided as integers.
\<close>

theorem rescale_in_floating_point:
  "(block_dict block ''IORI'' = Some q \<and> block_dict block ''SCAL'' = Some s
      \<and> as_float ops (val q) = Arr2 raw \<and> as_float ops (val s) = Arr0 c \<longrightarrow>
      np_divide ops (np_times_one ops (val q)) (val s) =
        Inr (Arr2 (map (map (\<lambda>r. physical ops r c)) raw))
      \<and> parse_iori_block ops as_euler block =
        (case euler_zyx as_euler (Arr2 (map (map (\<lambda>r. physical ops r c)) raw)) of
           Inl err \<Rightarrow> Inl err
         | Inr (zs, ys, xs) \<Rightarrow>
             (case block_dict block ''STMP'' of
                None \<Rightarrow> Inl (KeyError ''STMP'')
              | Some t \<Rightarrow> Inr \<lparr>IoriData.cts = val t, z = zs, y = ys, x = xs\<rparr>)))
   \<and> (block_dict block ''CORI'' = Some q' \<and> block_dict block ''SCAL'' = Some s
      \<and> as_float ops (val q') = Arr2 raw' \<and> as_float ops (val s) = Arr0 c \<longrightarrow>
      np_divide ops (np_times_one ops (val q')) (val s) =
        Inr (Arr2 (map (map (\<lambda>r. physical ops r c)) raw'))
      \<and> parse_cori_block ops as_euler block =
        (case euler_zyx as_euler (Arr2 (map (map (\<lambda>r. physical ops r c)) raw')) of
           Inl err \<Rightarrow> Inl err
         | Inr (zs, ys, xs) \<Rightarrow>
             (case block_dict block ''STMP'' of
                None \<Rightarrow> Inl (KeyError ''STMP'')
              | Some t \<Rightarrow> Inr \<lparr>CoriData.cts = val t, z = zs, y = ys, x = xs\<rparr>)))
   \<and> as_float ops (IntArr (Arr2 ints)) = Arr2 (map (map (f_of_int ops)) ints)
   \<and> as_float ops (IntArr (Arr0 k)) = Arr0 (f_of_int ops k)"
  by (simp add: parse_iori_block_def parse_cori_block_def np_divide_physical)

theorem rescale_in_floating_point_witness:
  "block_dict half_strm ''IORI'' = Some (KLV ''IORI'' (IntArr (Arr2 [[0, 0, 0, 1], [0, 0, 0, 3]])))
   \<and> block_dict half_strm ''CORI'' = Some (KLV ''CORI'' (IntArr (Arr2 [[0, 0, 0, 1]])))
   \<and> block_dict half_strm ''SCAL'' = Some (KLV ''SCAL'' (IntArr (Arr0 2)))
   \<and> np_divide x_ops (np_times_one x_ops (IntArr (Arr2 [[0, 0, 0, 1], [0, 0, 0, 3]])))
        (IntArr (Arr0 2)) =
       Inr (Arr2 [[Fin 0, Fin 0, Fin 0, Fin (1 / 2)], [Fin 0, Fin 0, Fin 0, Fin (3 / 2)]])
   \<and> np_divide x_ops (np_times_one x_ops (IntArr (Arr2 [[0, 0, 0, 1]]))) (IntArr (Arr0 2)) =
       Inr (Arr2 [[Fin 0, Fin 0, Fin 0, Fin (1 / 2)]])
   \<and> parse_iori_block x_ops x_euler half_strm =
       Inr \<lparr>IoriData.cts = IntArr (Arr0 500), z = [Fin 0, Fin 0], y = [Fin 0, Fin 0],
            x = [Fin 0, Fin 0]\<rparr>
   \<and> parse_cori_block x_ops x_euler half_strm =
       Inr \<lparr>CoriData.cts = IntArr (Arr0 500), z = [Fin 0], y = [Fin 0], x = [Fin 0]\<rparr>"
proof -
  have iori: "block_dict half_strm ''IORI'' =
      Some (KLV ''IORI'' (IntArr (Arr2 [[0, 0, 0, 1], [0, 0, 0, 3]])))"
    and cori: "block_dict half_strm ''CORI'' = Some (KLV ''CORI'' (IntArr (Arr2 [[0, 0, 0, 1]])))"
    and scal: "block_dict half_strm ''SCAL'' = Some (KLV ''SCAL'' (IntArr (Arr0 2)))"
    and stmp: "block_dict half_strm ''STMP'' = Some (KLV ''STMP'' (IntArr (Arr0 500)))"
    by (simp_all add: block_dict_def half_strm_def KLV_def)
  have raw: "as_float x_ops (val (KLV ''IORI'' (IntArr (Arr2 [[0, 0, 0, 1], [0, 0, 0, 3]])))) =
      Arr2 [[Fin 0, Fin 0, Fin 0, Fin 1], [Fin 0, Fin 0, Fin 0, Fin 3]]"
    and raw': "as_float x_ops (val (KLV ''CORI'' (IntArr (Arr2 [[0, 0, 0, 1]])))) =
      Arr2 [[Fin 0, Fin 0, Fin 0, Fin 1]]"
    and scale: "as_float x_ops (val (KLV ''SCAL'' (IntArr (Arr0 2)))) = Arr0 (Fin 2)"
    by (simp_all add: x_ops_def KLV_def)
  have quotient: "physical x_ops (Fin 0) (Fin 2) = Fin 0"
    "physical x_ops (Fin 1) (Fin 2) = Fin (1 / 2)" "physical x_ops (Fin 3) (Fin 2) = Fin (3 / 2)"
    by (simp_all add: physical_def x_ops_def)
  have angles: "euler_zyx x_euler
        (Arr2 [[Fin 0, Fin 0, Fin 0, Fin (1 / 2)], [Fin 0, Fin 0, Fin 0, Fin (3 / 2)]]) =
      Inr ([Fin 0, Fin 0], [Fin 0, Fin 0], [Fin 0, Fin 0])"
    "euler_zyx x_euler (Arr2 [[Fin 0, Fin 0, Fin 0, Fin (1 / 2)]]) = Inr ([Fin 0], [Fin 0], [Fin 0])"
    by (simp_all add: euler_zyx_def x_euler_def)
  from iori cori scal raw raw' scale show ?thesis
    using rescale_in_floating_point [of half_strm
        "KLV ''IORI'' (IntArr (Arr2 [[0, 0, 0, 1], [0, 0, 0, 3]]))"
        "KLV ''SCAL'' (IntArr (Arr0 2))" x_ops
        "[[Fin 0, Fin 0, Fin 0, Fin 1], [Fin 0, Fin 0, Fin 0, Fin 3]]" "Fin 2" x_euler
        "KLV ''CORI'' (IntArr (Arr2 [[0, 0, 0, 1]]))" "[[Fin 0, Fin 0, Fin 0, Fin 1]]"]
    by (simp add: quotient angles stmp KLV_def)
qed

text \<open>
  Claim C10. With all required records present and a scale of zero, the division is
  carried out all the same: it raises nothing, its quotients by zero go to the conversion,
  and the outcome is whatever the conversion makes of them. No \<open>KeyError\<close> arises,
  since no key is missing.
\<close>

theorem zero_scale_unguarded:
  "(block_dict block ''IORI'' = Some q \<and> block_dict block ''SCAL'' = Some s
      \<and> block_dict block ''STMP'' = Some t
      \<and> as_float ops (val s) = Arr0 (f_of_int ops 0) \<longrightarrow>
      np_divide ops (np_times_one ops (val q)) (val s) =
        Inr (map_ndarray (\<lambda>v. f_div ops v (f_of_int ops 0)) (np_times_one ops (val q)))
      \<and> parse_iori_block ops as_euler block =
        (case euler_zyx as_euler
                (map_ndarray (\<lambda>v. f_div ops v (f_of_int ops 0)) (np_times_one ops (val q))) of
           Inl err \<Rightarrow> Inl err
         | Inr (zs, ys, xs) \<Rightarrow> Inr \<lparr>IoriData.cts = val t, z = zs, y = ys, x = xs\<rparr>)
      \<and> (\<forall>k. parse_iori_block ops as_euler block \<noteq> Inl (KeyError k)))
   \<and> (block_dict block ''CORI'' = Some q' \<and> block_dict block ''SCAL'' = Some s
      \<and> block_dict block ''STMP'' = Some t
      \<and> as_float ops (val s) = Arr0 (f_of_int ops 0) \<longrightarrow>
      np_divide ops (np_times_one ops (val q')) (val s) =
        Inr (map_ndarray (\<lambda>v. f_div ops v (f_of_int ops 0)) (np_times_one ops (val q')))
      \<and> parse_cori_block ops as_euler block =
        (case euler_zyx as_euler
                (map_ndarray (\<lambda>v. f_div ops v (f_of_int ops 0)) (np_times_one ops (val q'))) of
           Inl err \<Rightarrow> Inl err
         | Inr (zs, ys, xs) \<Rightarrow> Inr \<lparr>CoriData.cts = val t, z = zs, y = ys, x = xs\<rparr>)
      \<and> (\<forall>k. parse_cori_block ops as_euler block \<noteq> Inl (KeyError k)))"
proof (intro conjI impI allI)
  assume h: "block_dict block ''IORI'' = Some q \<and> block_dict block ''SCAL'' = Some s
      \<and> block_dict block ''STMP'' = Some t \<and> as_float ops (val s) = Arr0 (f_of_int ops 0)"
  then show "np_divide ops (np_times_one ops (val q)) (val s) =
        Inr (map_ndarray (\<lambda>v. f_div ops v (f_of_int ops 0)) (np_times_one ops (val q)))"
    by (simp add: np_divide_scalar)
  from h show "parse_iori_block ops as_euler block =
        (case euler_zyx as_euler
                (map_ndarray (\<lambda>v. f_div ops v (f_of_int ops 0)) (np_times_one ops (val q))) of
           Inl err \<Rightarrow> Inl err
         | Inr (zs, ys, xs) \<Rightarrow> Inr \<lparr>IoriData.cts = val t, z = zs, y = ys, x = xs\<rparr>)"
    by (simp add: parse_iori_block_def np_divide_scalar split: sum.splits prod.splits)
  fix k
  from h decode_no_KeyError [of block "''IORI''" q s t ops as_euler k]
  show "parse_iori_block ops as_euler block \<noteq> Inl (KeyError k)"
    unfolding parse_iori_block_decode
    by (cases "decode ops as_euler ''IORI'' block") auto
next
  assume h: "block_dict block ''CORI'' = Some q' \<and> block_dict block ''SCAL'' = Some s
      \<and> block_dict block ''STMP'' = Some t \<and> as_float ops (val s) = Arr0 (f_of_int ops 0)"
  then show "np_divide ops (np_times_one ops (val q')) (val s) =
        Inr (map_ndarray (\<lambda>v. f_div ops v (f_of_int ops 0)) (np_times_one ops (val q')))"
    by (simp add: np_divide_scalar)
  from h show "parse_cori_block ops as_euler block =
        (case euler_zyx as_euler
                (map_ndarray (\<lambda>v. f_div ops v (f_of_int ops 0)) (np_times_one ops (val q'))) of
           Inl err \<Rightarrow> Inl err
         | Inr (zs, ys, xs) \<Rightarrow> Inr \<lparr>CoriData.cts = val t, z = zs, y = ys, x = xs\<rparr>)"
    by (simp add: parse_cori_block_def np_divide_scalar split: sum.splits prod.splits)
  fix k
  from h decode_no_KeyError [of block "''CORI''" q' s t ops as_euler k]
  show "parse_cori_block ops as_euler block \<noteq> Inl (KeyError k)"
    unfolding parse_cori_block_decode
    by (cases "decode ops as_euler ''CORI'' block") auto
qed

theorem zero_scale_unguarded_witness:
  "block_dict zero_scal_strm ''IORI'' =
       Some (KLV ''IORI'' (IntArr (Arr2 [[0, 0, 0, 2], [0, 0, 0, 2]])))
   \<and> block_dict zero_scal_strm ''CORI'' = Some (KLV ''CORI'' (IntArr (Arr2 [[0, 0, 0, 2]])))
   \<and> block_dict zero_scal_strm ''SCAL'' = Some (KLV ''SCAL'' (IntArr (Arr0 0)))
   \<and> block_dict zero_scal_strm ''STMP'' = Some (KLV ''STMP'' (IntArr (Arr0 500)))
   \<and> np_divide x_ops (np_times_one x_ops (IntArr (Arr2 [[0, 0, 0, 2], [0, 0, 0, 2]])))
        (IntArr (Arr0 0)) =
       Inr (Arr2 [[NaN, NaN, NaN, PInf], [NaN, NaN, NaN, PInf]])
   \<and> np_divide x_ops (np_times_one x_ops (IntArr (Arr2 [[0, 0, 0, 2]]))) (IntArr (Arr0 0)) =
       Inr (Arr2 [[NaN, NaN, NaN, PInf]])
   \<and> parse_iori_block x_ops x_euler zero_scal_strm =
       (case euler_zyx x_euler (Arr2 [[NaN, NaN, NaN, PInf], [NaN, NaN, NaN, PInf]]) of
          Inl err \<Rightarrow> Inl err
        | Inr (zs, ys, xs) \<Rightarrow> Inr \<lparr>IoriData.cts = IntArr (Arr0 500), z = zs, y = ys, x = xs\<rparr>)
   \<and> parse_cori_block x_ops x_euler zero_scal_strm =
       (case euler_zyx x_euler (Arr2 [[NaN, NaN, NaN, PInf]]) of
          Inl err \<Rightarrow> Inl err
        | Inr (zs, ys, xs) \<Rightarrow> Inr \<lparr>CoriData.cts = IntArr (Arr0 500), z = zs, y = ys, x = xs\<rparr>)
   \<and> (\<forall>k. parse_iori_block x_ops x_euler zero_scal_strm \<noteq> Inl (KeyError k))
   \<and> (\<forall>k. parse_cori_block x_ops x_euler zero_scal_strm \<noteq> Inl (KeyError k))"
proof -
  have iori: "block_dict zero_scal_strm ''IORI'' =
      Some (KLV ''IORI'' (IntArr (Arr2 [[0, 0, 0, 2], [0, 0, 0, 2]])))"
    and cori: "block_dict zero_scal_strm ''CORI'' =
      Some (KLV ''CORI'' (IntArr (Arr2 [[0, 0, 0, 2]])))"
    and scal: "block_dict zero_scal_strm ''SCAL'' = Some (KLV ''SCAL'' (IntArr (Arr0 0)))"
    and stmp: "block_dict zero_scal_strm ''STMP'' = Some (KLV ''STMP'' (IntArr (Arr0 500)))"
    by (simp_all add: block_dict_def zero_scal_strm_def KLV_def)
  have zero: "as_float x_ops (val (KLV ''SCAL'' (IntArr (Arr0 0)))) = Arr0 (f_of_int x_ops 0)"
    by (simp add: KLV_def)
  note inst = zero_scale_unguarded [of zero_scal_strm
      "KLV ''IORI'' (IntArr (Arr2 [[0, 0, 0, 2], [0, 0, 0, 2]]))"
      "KLV ''SCAL'' (IntArr (Arr0 0))" "KLV ''STMP'' (IntArr (Arr0 500))" x_ops x_euler
      "KLV ''CORI'' (IntArr (Arr2 [[0, 0, 0, 2]]))"]
  from iori scal stmp zero have for_iori: "block_dict zero_scal_strm ''IORI'' =
        Some (KLV ''IORI'' (IntArr (Arr2 [[0, 0, 0, 2], [0, 0, 0, 2]])))
      \<and> block_dict zero_scal_strm ''SCAL'' = Some (KLV ''SCAL'' (IntArr (Arr0 0)))
      \<and> block_dict zero_scal_strm ''STMP'' = Some (KLV ''STMP'' (IntArr (Arr0 500)))
      \<and> as_float x_ops (val (KLV ''SCAL'' (IntArr (Arr0 0)))) = Arr0 (f_of_int x_ops 0)"
    by blast
  from cori scal stmp zero have for_cori: "block_dict zero_scal_strm ''CORI'' =
        Some (KLV ''CORI'' (IntArr (Arr2 [[0, 0, 0, 2]])))
      \<and> block_dict zero_scal_strm ''SCAL'' = Some (KLV ''SCAL'' (IntArr (Arr0 0)))
      \<and> block_dict zero_scal_strm ''STMP'' = Some (KLV ''STMP'' (IntArr (Arr0 500)))
      \<and> as_float x_ops (val (KLV ''SCAL'' (IntArr (Arr0 0)))) = Arr0 (f_of_int x_ops 0)"
    by blast
  note at_iori = mp [OF conjunct1 [OF inst] for_iori]
  note at_cori = mp [OF conjunct2 [OF inst] for_cori]
  have evaluated: "np_times_one x_ops (val (KLV ''IORI'' (IntArr (Arr2 [[0, 0, 0, 2], [0, 0, 0, 2]]))))
      = Arr2 [[Fin 0, Fin 0, Fin 0, Fin 2], [Fin 0, Fin 0, Fin 0, Fin 2]]"
    "np_times_one x_ops (val (KLV ''CORI'' (IntArr (Arr2 [[0, 0, 0, 2]]))))
      = Arr2 [[Fin 0, Fin 0, Fin 0, Fin 2]]"
    "np_times_one x_ops (IntArr (Arr2 [[0, 0, 0, 2], [0, 0, 0, 2]]))
      = Arr2 [[Fin 0, Fin 0, Fin 0, Fin 2], [Fin 0, Fin 0, Fin 0, Fin 2]]"
    "np_times_one x_ops (IntArr (Arr2 [[0, 0, 0, 2]])) = Arr2 [[Fin 0, Fin 0, Fin 0, Fin 2]]"
    "f_div x_ops (Fin 0) (f_of_int x_ops 0) = NaN" "f_div x_ops (Fin 2) (f_of_int x_ops 0) = PInf"
    "val (KLV ''STMP'' (IntArr (Arr0 500))) = IntArr (Arr0 500)"
    "val (KLV ''SCAL'' (IntArr (Arr0 0))) = IntArr (Arr0 0)"
    by (simp_all add: x_ops_def KLV_def)
  from at_iori at_cori iori cori scal stmp show ?thesis
    by (simp add: evaluated euler_zyx_def x_euler_def del: np_times_one.simps)
qed

text \<open>
  Claim C9. Two decodes of one block in sequence, the second in the store the first
  leaves, agree: the arrays of the second result equal the arrays of the first, or both
  raise the same error. The first result is not disturbed by the second decode, and neither
  decode changes an array that existed before: a decode only adds arrays. What a decode
  returns is what the decoder on values returns on the block read out of the store.
\<close>

theorem decodes_of_one_block_agree:
  "((\<forall>s\<in>set block. ref_val s < fresh h)
      \<and> parse_iori_block_heap ops as_euler h block = (r1, h1)
      \<and> parse_iori_block_heap ops as_euler h1 block = (r2, h2) \<longrightarrow>
      map_sum id (contents h2) r2 = map_sum id (contents h1) r1
      \<and> map_sum id (contents h2) r1 = map_sum id (contents h1) r1
      \<and> (\<forall>a<fresh h. cells h1 a = cells h a \<and> cells h2 a = cells h a)
      \<and> map_sum id (contents h1) r1 =
          map_sum id (\<lambda>r. as_arrays (iori_fields r))
            (parse_iori_block ops as_euler (map (load h) block)))
   \<and> ((\<forall>s\<in>set block. ref_val s < fresh h)
      \<and> parse_cori_block_heap ops as_euler h block = (r1', h1')
      \<and> parse_cori_block_heap ops as_euler h1' block = (r2', h2') \<longrightarrow>
      map_sum id (contents h2') r2' = map_sum id (contents h1') r1'
      \<and> map_sum id (contents h2') r1' = map_sum id (contents h1') r1'
      \<and> (\<forall>a<fresh h. cells h1' a = cells h a \<and> cells h2' a = cells h a)
      \<and> map_sum id (contents h1') r1' =
          map_sum id (\<lambda>r. as_arrays (cori_fields r))
            (parse_cori_block ops as_euler (map (load h) block)))"
proof (intro conjI impI)
  assume run: "(\<forall>s\<in>set block. ref_val s < fresh h)
      \<and> parse_iori_block_heap ops as_euler h block = (r1, h1)
      \<and> parse_iori_block_heap ops as_euler h1 block = (r2, h2)"
  then have live: "\<forall>s\<in>set block. ref_val s < fresh h"
    and first: "decode_heap ops as_euler ''IORI'' h block = (r1, h1)"
    and second: "decode_heap ops as_euler ''IORI'' h1 block = (r2, h2)"
    by (simp_all add: parse_iori_block_heap_decode)
  note twice = decode_heap_twice [OF live first second]
  from twice(1) show "map_sum id (contents h2) r2 = map_sum id (contents h1) r1" .
  from twice(2) show "map_sum id (contents h2) r1 = map_sum id (contents h1) r1" .
  from twice(3) show "\<forall>a<fresh h. cells h1 a = cells h a \<and> cells h2 a = cells h a" .
  from twice(4) show "map_sum id (contents h1) r1 =
      map_sum id (\<lambda>r. as_arrays (iori_fields r))
        (parse_iori_block ops as_euler (map (load h) block))"
    by (cases "decode ops as_euler ''IORI'' (map (load h) block)")
       (simp_all add: parse_iori_block_decode iori_fields_of)
next
  assume run: "(\<forall>s\<in>set block. ref_val s < fresh h)
      \<and> parse_cori_block_heap ops as_euler h block = (r1', h1')
      \<and> parse_cori_block_heap ops as_euler h1' block = (r2', h2')"
  then have live: "\<forall>s\<in>set block. ref_val s < fresh h"
    and first: "decode_heap ops as_euler ''CORI'' h block = (r1', h1')"
    and second: "decode_heap ops as_euler ''CORI'' h1' block = (r2', h2')"
    by (simp_all add: parse_cori_block_heap_decode)
  note twice = decode_heap_twice [OF live first second]
  from twice(1) show "map_sum id (contents h2') r2' = map_sum id (contents h1') r1'" .
  from twice(2) show "map_sum id (contents h2') r1' = map_sum id (contents h1') r1'" .
  from twice(3) show "\<forall>a<fresh h. cells h1' a = cells h a \<and> cells h2' a = cells h a" .
  from twice(4) show "map_sum id (contents h1') r1' =
      map_sum id (\<lambda>r. as_arrays (cori_fields r))
        (parse_cori_block ops as_euler (map (load h) block))"
    by (cases "decode ops as_euler ''CORI'' (map (load h) block)")
       (simp_all add: parse_cori_block_decode cori_fields_of)
qed

theorem decodes_of_one_block_agree_witness:
  "map ref_val sample_refs = [0, 1, 2, 3] \<and> fresh sample_heap = 4
   \<and> fst iori_run1 = Inr \<lparr>cts_at = 0, z_at = 6, y_at = 7, x_at = 8\<rparr>
   \<and> fst iori_run2 = Inr \<lparr>cts_at = 0, z_at = 11, y_at = 12, x_at = 13\<rparr>
   \<and> map_sum id (contents (snd iori_run2)) (fst iori_run2) =
       map_sum id (contents (snd iori_run1)) (fst iori_run1)
   \<and> map_sum id (contents (snd iori_run1)) (fst iori_run1) =
       Inr (IntArr (Arr0 500), FltArr (Arr1 [Fin 0, Fin 0]), FltArr (Arr1 [Fin 0, Fin 0]),
            FltArr (Arr1 [Fin 0, Fin 0]))
   \<and> fst cori_run1 = Inr \<lparr>cts_at = 0, z_at = 6, y_at = 7, x_at = 8\<rparr>
   \<and> fst cori_run2 = Inr \<lparr>cts_at = 0, z_at = 11, y_at = 12, x_at = 13\<rparr>
   \<and> map_sum id (contents (snd cori_run2)) (fst cori_run2) =
       map_sum id (contents (snd cori_run1)) (fst cori_run1)
   \<and> map_sum id (contents (snd cori_run1)) (fst cori_run1) =
       Inr (IntArr (Arr0 500), FltArr (Arr1 [Fin 0]), FltArr (Arr1 [Fin 0]), FltArr (Arr1 [Fin 0]))"
proof -
  have live: "\<forall>s\<in>set sample_refs. ref_val s < fresh sample_heap"
    by (simp add: sample_refs_def sample_heap_def)
  have iori1: "parse_iori_block_heap x_ops x_euler sample_heap sample_refs =
      (fst iori_run1, snd iori_run1)"
    and iori2: "parse_iori_block_heap x_ops x_euler (snd iori_run1) sample_refs =
      (fst iori_run2, snd iori_run2)"
    and cori1: "parse_cori_block_heap x_ops x_euler sample_heap sample_refs =
      (fst cori_run1, snd cori_run1)"
    and cori2: "parse_cori_block_heap x_ops x_euler (snd cori_run1) sample_refs =
      (fst cori_run2, snd cori_run2)"
    by (simp_all add: iori_run1_def iori_run2_def cori_run1_def cori_run2_def)
  have refs: "fst iori_run1 = Inr \<lparr>cts_at = 0, z_at = 6, y_at = 7, x_at = 8\<rparr>"
    "fst cori_run1 = Inr \<lparr>cts_at = 0, z_at = 6, y_at = 7, x_at = 8\<rparr>"
    by (simp_all add: iori_run1_def cori_run1_def heap_defs)
  have refs2: "fst iori_run2 = Inr \<lparr>cts_at = 0, z_at = 11, y_at = 12, x_at = 13\<rparr>"
    "fst cori_run2 = Inr \<lparr>cts_at = 0, z_at = 11, y_at = 12, x_at = 13\<rparr>"
    by (simp_all add: iori_run2_def iori_run1_def cori_run2_def cori_run1_def heap_defs)
  have held: "map_sum id (contents (snd iori_run1)) (fst iori_run1) =
       Inr (IntArr (Arr0 500), FltArr (Arr1 [Fin 0, Fin 0]), FltArr (Arr1 [Fin 0, Fin 0]),
            FltArr (Arr1 [Fin 0, Fin 0]))"
    "map_sum id (contents (snd cori_run1)) (fst cori_run1) =
       Inr (IntArr (Arr0 500), FltArr (Arr1 [Fin 0]), FltArr (Arr1 [Fin 0]), FltArr (Arr1 [Fin 0]))"
    by (simp_all add: iori_run1_def cori_run1_def heap_defs)
  note inst = decodes_of_one_block_agree [of sample_refs sample_heap x_ops x_euler
      "fst iori_run1" "snd iori_run1" "fst iori_run2" "snd iori_run2"
      "fst cori_run1" "snd cori_run1" "fst cori_run2" "snd cori_run2"]
  from inst live iori1 iori2
  have "map_sum id (contents (snd iori_run2)) (fst iori_run2) =
      map_sum id (contents (snd iori_run1)) (fst iori_run1)"
    by blast
  moreover from inst live cori1 cori2
  have "map_sum id (contents (snd cori_run2)) (fst cori_run2) =
      map_sum id (contents (snd cori_run1)) (fst cori_run1)"
    by blast
  moreover have "map ref_val sample_refs = [0, 1, 2, 3]" "fresh sample_heap = 4"
    by (simp_all add: sample_refs_def sample_heap_def)
  ultimately show ?thesis
    using refs refs2 held by blast
qed

text \<open>
  Claim C7. Each decoder is the parametrised decoder at its own key, and exchanging the
  keys \<open>IORI\<close> and \<open>CORI\<close> in a block carries the result of one decoder to
  that of the other: the same four fields, or the same error up to the key it names.
\<close>

theorem decoders_are_instances:
  "parse_iori_block ops as_euler block =
     map_sum id iori_of (decode ops as_euler ''IORI'' block)
   \<and> parse_cori_block ops as_euler block =
     map_sum id cori_of (decode ops as_euler ''CORI'' block)
   \<and> map_sum id iori_fields (parse_iori_block ops as_euler (map (rekey swap_fourcc) block)) =
     map_sum (rekey_error swap_fourcc) cori_fields (parse_cori_block ops as_euler block)"
proof -
  have "decode ops as_euler (swap_fourcc ''CORI'') (map (rekey swap_fourcc) block) =
      map_sum (rekey_error swap_fourcc) id (decode ops as_euler ''CORI'' block)"
    by (rule decode_rekey [OF inj_swap_fourcc]) (simp_all add: swap_fourcc_def)
  then have "decode ops as_euler ''IORI'' (map (rekey swap_fourcc) block) =
      map_sum (rekey_error swap_fourcc) id (decode ops as_euler ''CORI'' block)"
    by (simp add: swap_fourcc_def)
  then show ?thesis
    unfolding parse_iori_block_decode parse_cori_block_decode
    by (cases "decode ops as_euler ''CORI'' block")
       (auto simp: iori_fields_def cori_fields_def iori_of_def cori_of_def)
qed

theorem decoders_are_instances_witness:
  "parse_cori_block x_ops x_euler cori_strm =
     Inr \<lparr>CoriData.cts = IntArr (Arr0 500), z = [Fin 0, Fin 0], y = [Fin 0, Fin 0],
          x = [Fin 0, Fin 0]\<rparr>
   \<and> map (rekey swap_fourcc) cori_strm =
     [KLV ''STMP'' (IntArr (Arr0 500)), KLV ''SCAL'' (IntArr (Arr0 2)),
      KLV ''IORI'' (IntArr (Arr2 [[0, 0, 0, 2], [0, 0, 0, 2]]))]
   \<and> map_sum id iori_fields (parse_iori_block x_ops x_euler (map (rekey swap_fourcc) cori_strm)) =
     Inr (IntArr (Arr0 500), [Fin 0, Fin 0], [Fin 0, Fin 0], [Fin 0, Fin 0])
   \<and> map_sum id iori_fields (parse_iori_block x_ops x_euler (map (rekey swap_fourcc) gyro_strm)) =
     Inl (KeyError ''IORI'')
   \<and> parse_cori_block x_ops x_euler gyro_strm = Inl (KeyError ''CORI'')"
proof -
  have cori: "parse_cori_block x_ops x_euler cori_strm =
     Inr \<lparr>CoriData.cts = IntArr (Arr0 500), z = [Fin 0, Fin 0], y = [Fin 0, Fin 0],
          x = [Fin 0, Fin 0]\<rparr>"
    by (simp add: sample_defs cori_strm_def)
  have gyro: "parse_cori_block x_ops x_euler gyro_strm = Inl (KeyError ''CORI'')"
    by (simp add: sample_defs gyro_strm_def)
  have renamed: "map (rekey swap_fourcc) cori_strm =
     [KLV ''STMP'' (IntArr (Arr0 500)), KLV ''SCAL'' (IntArr (Arr0 2)),
      KLV ''IORI'' (IntArr (Arr2 [[0, 0, 0, 2], [0, 0, 0, 2]]))]"
    by (simp add: cori_strm_def rekey_def swap_fourcc_def KLV_def)
  from cori gyro renamed show ?thesis
    using decoders_are_instances [of x_ops x_euler cori_strm]
      decoders_are_instances [of x_ops x_euler gyro_strm]
    by (simp add: cori_fields_def swap_fourcc_def)
qed

end
